theory Spec2Isabelle
  imports Complex_Main "HOL-Library.AList"
begin

section \<open>Values exchanged with the host process\<close>

text \<open>
  Envelopes travel as JSON lines. A JSON value, as \<open>json.loads\<close> hands it to the
  Python code: \<open>null\<close>, booleans, integers, floats, strings, arrays and objects.
  An object keeps its keys in insertion order, as a Python \<open>dict\<close> does. Floats are
  modelled by real numbers.
\<close>

datatype pyval =
    PNone
  | PBool bool
  | PInt int
  | PFloat real
  | PStr string
  | PList "pyval list"
  | PDict "(string \<times> pyval) list"

text \<open>The exceptions the modelled code can raise.\<close>

datatype error = KeyError string | TypeError | AttributeError | ValueError

section \<open>The live provider: \<open>NOAAWeatherService._make_request\<close>\<close>

text \<open>
  What one \<open>session.get(url)\<close> can do: answer with a status code and a body
  (\<open>None\<close> for a body that \<open>response.json()\<close> cannot decode, which raises inside
  the \<open>try\<close>), time out, or fail with a client error or any other exception.
\<close>

datatype http_outcome =
    Response nat "pyval option"
  | TimeoutError
  | ClientError
  | OtherException

text \<open>
  The upstream is a stream of outcomes: \<open>upstream n\<close> is what the \<open>n\<close>-th GET issued
  by the process receives. \<open>_make_request\<close> is the source's recursion, written as it
  is: on status 429 it sleeps five seconds and calls itself with the same URL, and
  no counter of its own bounds the calls. The recursive call sits inside the
  \<open>try\<close>, so what ends a run of throttled answers is the interpreter: \<open>frames\<close> is
  the number of nested calls that the interpreter's recursion limit still lets
  issue a GET, and once none is left the \<open>RecursionError\<close> is caught by
  \<open>except Exception\<close> and the call returns \<open>None\<close>. The result pairs the value
  returned with the number of GETs issued so far. The rate-limit sleep before the
  GET only delays it and is left out.
\<close>

fun make_request ::
  "nat \<Rightarrow> (nat \<Rightarrow> http_outcome) \<Rightarrow> nat \<Rightarrow> pyval option \<times> nat"
where
  "make_request 0 upstream n = (None, n)"
| "make_request (Suc frames) upstream n =
     (case upstream n of
        Response status body \<Rightarrow>
          if status = 200 then (body, Suc n)
          else if status = 404 then (None, Suc n)
          else if status = 429 then make_request frames upstream (Suc n)
          else (None, Suc n)
      | TimeoutError \<Rightarrow> (None, Suc n)
      | ClientError \<Rightarrow> (None, Suc n)
      | OtherException \<Rightarrow> (None, Suc n))"

text \<open>An upstream that throttles the first \<open>k\<close> GETs and then answers 200 with \<open>d\<close>.\<close>

definition throttled_then_ok :: "nat \<Rightarrow> pyval \<Rightarrow> nat \<Rightarrow> http_outcome" where
  "throttled_then_ok k d n = (if n < k then Response 429 None else Response 200 (Some d))"

text \<open>An upstream that throttles for ever.\<close>

definition always_throttled :: "nat \<Rightarrow> http_outcome" where
  "always_throttled n = Response 429 None"

section \<open>Handler registry and capabilities\<close>

text \<open>
  \<open>BaseAgent.register_default_handlers\<close> and
  \<open>WeatherMonitoringAgent.register_weather_handlers\<close>: the message types entered
  in \<open>message_handlers\<close>, in the order the constructor registers them.
\<close>

definition register_default_handlers :: "string list" where
  "register_default_handlers = [''ping'', ''shutdown'', ''get_status'', ''heartbeat_request'']"

definition register_weather_handlers :: "string list" where
  "register_weather_handlers =
     [''start_monitoring'', ''stop_monitoring'', ''get_current_weather'',
      ''get_weather_history'', ''get_weather_forecast'', ''get_weather_alerts'',
      ''update_alert_thresholds'', ''weather_analysis_request'',
      ''get_noaa_alerts'', ''refresh_noaa_data'']"

definition message_handlers :: "string list" where
  "message_handlers = register_default_handlers @ register_weather_handlers"

text \<open>\<open>WeatherMonitoringAgent.get_capabilities\<close>: the literal list, then the \<open>extend\<close>.\<close>

definition get_capabilities :: "string list" where
  "get_capabilities =
     [''ping'', ''status'', ''heartbeat'',
      ''start_monitoring'', ''stop_monitoring'',
      ''get_current_weather'', ''get_weather_history'',
      ''get_weather_forecast'', ''get_weather_alerts'',
      ''weather_analysis_request'']
     @ [''get_noaa_alerts'', ''refresh_noaa_data'']"

text \<open>The capability list of the sibling \<open>AnalyticsAgent\<close> and the types it registers.\<close>

definition register_analytics_handlers :: "string list" where
  "register_analytics_handlers =
     [''analyze_client_data'', ''analyze_shelter_occupancy'', ''predict_demand'',
      ''generate_report'', ''update_data'', ''get_analytics_summary'']"

definition analytics_get_capabilities :: "string list" where
  "analytics_get_capabilities =
     [''ping'', ''status'', ''heartbeat'',
      ''analyze_client_data'', ''analyze_shelter_occupancy'',
      ''predict_demand'', ''generate_report'', ''update_data'',
      ''get_analytics_summary'']"

section \<open>Readings, alerts and envelopes\<close>

text \<open>
  \<open>WeatherReading\<close> is a dataclass of ten fields. The record is typed as the class
  annotates its fields; floats are real numbers here.
\<close>

record WeatherReading =
  timestamp :: string
  temperature_f :: real
  humidity_percent :: real
  precipitation_inches :: real
  wind_speed_mph :: real
  wind_direction :: string
  pressure_mb :: real
  visibility_miles :: real
  conditions :: string
  uv_index :: int

text \<open>\<open>to_dict\<close> is \<open>dataclasses.asdict\<close>: one entry per field, in field order.\<close>

definition WeatherReading_to_dict :: "WeatherReading \<Rightarrow> (string \<times> pyval) list" where
  "WeatherReading_to_dict r =
     [(''timestamp'', PStr (timestamp r)),
      (''temperature_f'', PFloat (temperature_f r)),
      (''humidity_percent'', PFloat (humidity_percent r)),
      (''precipitation_inches'', PFloat (precipitation_inches r)),
      (''wind_speed_mph'', PFloat (wind_speed_mph r)),
      (''wind_direction'', PStr (wind_direction r)),
      (''pressure_mb'', PFloat (pressure_mb r)),
      (''visibility_miles'', PFloat (visibility_miles r)),
      (''conditions'', PStr (conditions r)),
      (''uv_index'', PInt (uv_index r))]"

definition WeatherReading_fields :: "string list" where
  "WeatherReading_fields =
     [''timestamp'', ''temperature_f'', ''humidity_percent'', ''precipitation_inches'',
      ''wind_speed_mph'', ''wind_direction'', ''pressure_mb'', ''visibility_miles'',
      ''conditions'', ''uv_index'']"

fun as_float :: "pyval \<Rightarrow> real option" where
  "as_float (PFloat x) = Some x"
| "as_float (PInt i) = Some (of_int i)"
| "as_float _ = None"

fun as_str :: "pyval \<Rightarrow> string option" where
  "as_str (PStr s) = Some s"
| "as_str _ = None"

fun as_int :: "pyval \<Rightarrow> int option" where
  "as_int (PInt i) = Some i"
| "as_int _ = None"

text \<open>
  \<open>from_dict\<close> is \<open>cls(**data)\<close>: a key that is no field, or a field without a key,
  raises \<open>TypeError\<close>. Python does not check the values against the annotations; the
  typed record has no image for a value of another type, and the model answers
  \<open>TypeError\<close> there as well.
\<close>

definition WeatherReading_from_dict :: "(string \<times> pyval) list \<Rightarrow> error + WeatherReading" where
  "WeatherReading_from_dict data =
     (if list_ex (\<lambda>k. k \<notin> set WeatherReading_fields) (map fst data) then Inl TypeError
      else if list_ex (\<lambda>f. map_of data f = None) WeatherReading_fields then Inl TypeError
      else
        (case (Option.bind (map_of data ''timestamp'') as_str,
               Option.bind (map_of data ''temperature_f'') as_float,
               Option.bind (map_of data ''humidity_percent'') as_float,
               Option.bind (map_of data ''precipitation_inches'') as_float,
               Option.bind (map_of data ''wind_speed_mph'') as_float,
               Option.bind (map_of data ''wind_direction'') as_str,
               Option.bind (map_of data ''pressure_mb'') as_float,
               Option.bind (map_of data ''visibility_miles'') as_float,
               Option.bind (map_of data ''conditions'') as_str,
               Option.bind (map_of data ''uv_index'') as_int) of
           (Some ts, Some t, Some h, Some p, Some w, Some wd, Some pr, Some v, Some c, Some uv) \<Rightarrow>
             Inr \<lparr>timestamp = ts, temperature_f = t, humidity_percent = h,
                  precipitation_inches = p, wind_speed_mph = w, wind_direction = wd,
                  pressure_mb = pr, visibility_miles = v, conditions = c, uv_index = uv\<rparr>
         | _ \<Rightarrow> Inl TypeError))"

text \<open>\<open>WeatherAlert\<close>: a locally generated alert.\<close>

record WeatherAlert =
  alert_id :: string
  alert_timestamp :: string
  alert_type :: string
  severity :: string
  message :: string
  recommendations :: "string list"
  affected_services :: "string list"

definition WeatherAlert_to_dict :: "WeatherAlert \<Rightarrow> (string \<times> pyval) list" where
  "WeatherAlert_to_dict a =
     [(''alert_id'', PStr (alert_id a)),
      (''timestamp'', PStr (alert_timestamp a)),
      (''alert_type'', PStr (alert_type a)),
      (''severity'', PStr (severity a)),
      (''message'', PStr (message a)),
      (''recommendations'', PList (map PStr (recommendations a))),
      (''affected_services'', PList (map PStr (affected_services a)))]"

text \<open>
  The clock, read where the source reads it: \<open>int(time.time())\<close>,
  \<open>int(time.time() * 1000)\<close>, \<open>datetime.now(timezone.utc)\<close> in microseconds since
  the epoch and as its \<open>isoformat()\<close>, and the local hour \<open>datetime.now().hour\<close>.
\<close>

record clock =
  unix_seconds :: int
  unix_millis :: int
  utc_now :: int
  utc_now_iso :: string
  local_hour :: int

text \<open>
  \<open>CrossLanguageMessage\<close>. The constructor takes six arguments and stamps the
  message with the current time; no argument carries a timestamp.
\<close>

record CrossLanguageMessage =
  msg_id :: pyval
  msg_type :: pyval
  msg_timestamp :: string
  source :: pyval
  destination :: pyval
  payload :: pyval
  metadata :: pyval

definition CrossLanguageMessage_init ::
  "clock \<Rightarrow> pyval \<Rightarrow> pyval \<Rightarrow> pyval \<Rightarrow> pyval \<Rightarrow> pyval \<Rightarrow> pyval \<Rightarrow> CrossLanguageMessage"
where
  "CrossLanguageMessage_init clk i t s d p m =
     \<lparr>msg_id = i, msg_type = t, msg_timestamp = utc_now_iso clk,
      source = s, destination = d, payload = p, metadata = m\<rparr>"

definition CrossLanguageMessage_to_dict :: "CrossLanguageMessage \<Rightarrow> (string \<times> pyval) list" where
  "CrossLanguageMessage_to_dict m =
     [(''id'', msg_id m),
      (''timestamp'', PStr (msg_timestamp m)),
      (''type'', msg_type m),
      (''source'', source m),
      (''destination'', destination m),
      (''payload'', payload m),
      (''metadata'', metadata m)]"

text \<open>\<open>data[k]\<close> on a dictionary: \<open>KeyError\<close> when the key is missing.\<close>

definition getitem :: "(string \<times> pyval) list \<Rightarrow> string \<Rightarrow> error + pyval" where
  "getitem data k = (case map_of data k of None \<Rightarrow> Inl (KeyError k) | Some v \<Rightarrow> Inr v)"

text \<open>Sequencing of steps that may raise.\<close>

definition bind_e :: "error + 'a \<Rightarrow> ('a \<Rightarrow> error + 'b) \<Rightarrow> error + 'b" where
  "bind_e x f = (case x of Inl e \<Rightarrow> Inl e | Inr v \<Rightarrow> f v)"

text \<open>
  \<open>from_dict\<close> reads six keys, in the order of the constructor's arguments, and
  calls the constructor; the dictionary's \<open>timestamp\<close> entry is not read.
\<close>

definition CrossLanguageMessage_from_dict ::
  "clock \<Rightarrow> (string \<times> pyval) list \<Rightarrow> error + CrossLanguageMessage"
where
  "CrossLanguageMessage_from_dict clk data =
     bind_e (getitem data ''id'') (\<lambda>i.
     bind_e (getitem data ''type'') (\<lambda>t.
     bind_e (getitem data ''source'') (\<lambda>s.
     bind_e (getitem data ''destination'') (\<lambda>d.
     bind_e (getitem data ''payload'') (\<lambda>p.
     bind_e (getitem data ''metadata'') (\<lambda>m.
       Inr (CrossLanguageMessage_init clk i t s d p m)))))))"

section \<open>Formatting\<close>

text \<open>\<open>str\<close> of an integer, as an f-string prints it.\<close>

fun str_nat :: "nat \<Rightarrow> string" where
  "str_nat n = (if n < 10 then [char_of (48 + n)] else str_nat (n div 10) @ [char_of (48 + n mod 10)])"

definition str_int :: "int \<Rightarrow> string" where
  "str_int i = (if i < 0 then CHR ''-'' # str_nat (nat (- i)) else str_nat (nat i))"

text \<open>
  \<open>str.title()\<close> on the one-word lower-case literals the source applies it to
  (\<open>'heavy'\<close>, \<open>'high'\<close>, \<open>'extreme'\<close>): the first letter is capitalised.
\<close>

definition title :: "string \<Rightarrow> string" where
  "title s = (case s of [] \<Rightarrow> []
              | c # cs \<Rightarrow> (let n = (of_char c :: nat)
                           in if 97 \<le> n \<and> n \<le> 122 then char_of (n - 32) else c) # cs)"

text \<open>\<open>s.replace('Z', '+00:00')\<close>.\<close>

definition replace_Z :: "string \<Rightarrow> string" where
  "replace_Z s = concat (map (\<lambda>c. if c = CHR ''Z'' then ''+00:00'' else [c]) s)"

text \<open>
  What \<open>datetime.fromisoformat\<close> returns: an aware or a naive datetime, in
  microseconds. The parser itself, \<open>isoformat()\<close> of an aware UTC datetime and
  the printing of a float are the Python runtime's; the model takes them as
  parameters.
\<close>

datatype pydatetime = Aware int | Naive int

record runtime =
  fromisoformat :: "string \<Rightarrow> error + pydatetime"
  isoformat :: "int \<Rightarrow> string"
  str_float :: "real \<Rightarrow> string"

text \<open>The degree sign and the double quote of the alert messages, as UTF-8 bytes.\<close>

definition degree_sign :: string where
  "degree_sign = [char_of (0xC2 :: nat), char_of (0xB0 :: nat)]"

definition double_quote :: string where
  "double_quote = [char_of (0x22 :: nat)]"

section \<open>Agent state\<close>

record WeatherSimulator =
  base_temp :: real
  sim_location :: string
  temperature_trend :: real
  pressure_trend :: real
  storm_probability :: real

record NOAALocation =
  latitude :: real
  longitude :: real
  grid_id :: string
  grid_x :: int
  grid_y :: int
  forecast_office :: string
  city :: string
  state :: string

record NOAAAlert =
  noaa_alert_id :: string
  event :: string
  noaa_severity :: string
  certainty :: string
  urgency :: string
  headline :: string
  description :: string
  instruction :: "string option"
  areas :: "string list"
  effective :: string
  expires :: string
  sender :: string
  status :: string
  message_type :: string

text \<open>
  The handle of the background task that \<open>asyncio.create_task\<close> returns: the
  duration the loop was started with, whether a cancellation was requested, and
  whether the task has terminated.
\<close>

record task =
  task_duration_hours :: int
  task_cancel_requested :: bool
  task_done :: bool

text \<open>
  The fields of \<open>WeatherMonitoringAgent\<close> that the modelled operations read or
  write. \<open>noaa_service\<close> is whether a service object is held. \<open>alert_thresholds\<close> is
  the dictionary in insertion order; a threshold update may store any JSON value.
\<close>

record agent =
  agent_id :: string
  location :: string
  use_real_weather :: bool
  simulator :: WeatherSimulator
  weather_data :: "WeatherReading list"
  active_alerts :: "WeatherAlert list"
  noaa_alerts :: "NOAAAlert list"
  monitoring_active :: bool
  monitoring_task :: "task option"
  noaa_service :: bool
  noaa_location :: "NOAALocation option"
  alert_thresholds :: "(string \<times> pyval) list"

definition initial_thresholds :: "(string \<times> pyval) list" where
  "initial_thresholds =
     [(''temperature_high'', PFloat 95),
      (''temperature_low'', PFloat 20),
      (''precipitation_heavy'', PFloat (1/2)),
      (''precipitation_extreme'', PFloat 1),
      (''wind_high'', PFloat 30),
      (''wind_extreme'', PFloat 50),
      (''visibility_low'', PFloat 2),
      (''uv_extreme'', PInt 8)]"

text \<open>\<open>WeatherSimulator.__init__\<close> and \<open>WeatherMonitoringAgent.__init__\<close>.\<close>

definition WeatherSimulator_init :: "real \<Rightarrow> string \<Rightarrow> WeatherSimulator" where
  "WeatherSimulator_init bt loc =
     \<lparr>base_temp = bt, sim_location = loc, temperature_trend = 0, pressure_trend = 0,
      storm_probability = 1/10\<rparr>"

definition agent_init :: "string \<Rightarrow> string \<Rightarrow> bool \<Rightarrow> agent" where
  "agent_init aid loc real_weather =
     \<lparr>agent_id = aid, location = loc, use_real_weather = real_weather,
      simulator = WeatherSimulator_init 70 loc,
      weather_data = [], active_alerts = [], noaa_alerts = [],
      monitoring_active = False, monitoring_task = None,
      noaa_service = False, noaa_location = None,
      alert_thresholds = initial_thresholds\<rparr>"

text \<open>The \<open>source\<close> dictionary every outgoing envelope carries.\<close>

definition own_source :: "agent \<Rightarrow> pyval" where
  "own_source a =
     PDict [(''agentId'', PStr (agent_id a)), (''language'', PStr ''python''),
            (''runtime'', PStr ''python3'')]"

section \<open>The alert engine\<close>

text \<open>
  A comparison of a float with a configured threshold. Numbers (and booleans, which
  Python counts as integers) compare; any other value raises \<open>TypeError\<close>.
\<close>

fun num_of :: "pyval \<Rightarrow> real option" where
  "num_of (PFloat x) = Some x"
| "num_of (PInt i) = Some (of_int i)"
| "num_of (PBool b) = Some (if b then 1 else 0)"
| "num_of _ = None"

definition py_ge :: "real \<Rightarrow> pyval \<Rightarrow> error + bool" where
  "py_ge x v = (case num_of v of None \<Rightarrow> Inl TypeError | Some y \<Rightarrow> Inr (x \<ge> y))"

definition py_le :: "real \<Rightarrow> pyval \<Rightarrow> error + bool" where
  "py_le x v = (case num_of v of None \<Rightarrow> Inl TypeError | Some y \<Rightarrow> Inr (x \<le> y))"

definition create_temperature_alert ::
  "runtime \<Rightarrow> clock \<Rightarrow> WeatherReading \<Rightarrow> string \<Rightarrow> WeatherAlert"
where
  "create_temperature_alert rt clk reading temp_type =
     (let sev = (if (temp_type = ''high'' \<and> temperature_f reading > 100)
                    \<or> (temp_type = ''low'' \<and> temperature_f reading < 10)
                 then ''extreme'' else ''high'');
          msg = (if temp_type = ''high''
                 then ''Extreme heat warning: '' @ str_float rt (temperature_f reading)
                        @ degree_sign @ ''F''
                 else ''Extreme cold warning: '' @ str_float rt (temperature_f reading)
                        @ degree_sign @ ''F'');
          recs = (if temp_type = ''high''
                  then [''Open cooling centers for vulnerable populations'',
                        ''Increase hydration stations at outdoor events'',
                        ''Consider rescheduling outdoor activities'',
                        ''Check on elderly and homeless individuals'']
                  else [''Open warming centers immediately'',
                        ''Conduct wellness checks on homeless population'',
                        ''Prepare for increased shelter demand'',
                        ''Check heating systems in facilities''])
      in \<lparr>alert_id = ''temp_'' @ temp_type @ ''_'' @ str_int (unix_seconds clk),
          alert_timestamp = timestamp reading,
          alert_type = ''temperature'',
          severity = sev,
          message = msg,
          recommendations = recs,
          affected_services = [''shelter'', ''outreach'', ''outdoor_events'', ''transportation'']\<rparr>)"

definition create_precipitation_alert ::
  "runtime \<Rightarrow> clock \<Rightarrow> WeatherReading \<Rightarrow> string \<Rightarrow> WeatherAlert"
where
  "create_precipitation_alert rt clk reading precip_type =
     \<lparr>alert_id = ''precip_'' @ precip_type @ ''_'' @ str_int (unix_seconds clk),
      alert_timestamp = timestamp reading,
      alert_type = ''precipitation'',
      severity = (if precip_type = ''extreme'' then ''extreme'' else ''high''),
      message = title precip_type @ '' precipitation: ''
                  @ str_float rt (precipitation_inches reading) @ double_quote @ '' per hour'',
      recommendations =
        [''Monitor for flooding in low-lying areas'',
         ''Prepare emergency transportation'',
         ''Check drainage systems around facilities'',
         ''Consider postponing outdoor events'']
        @ (if precip_type = ''extreme''
           then [''Activate emergency response protocols'',
                 ''Prepare evacuation routes'',
                 ''Coordinate with emergency services'']
           else []),
      affected_services = [''transportation'', ''outdoor_events'', ''facility_operations'']\<rparr>"

definition create_wind_alert ::
  "runtime \<Rightarrow> clock \<Rightarrow> WeatherReading \<Rightarrow> string \<Rightarrow> WeatherAlert"
where
  "create_wind_alert rt clk reading wind_type =
     \<lparr>alert_id = ''wind_'' @ wind_type @ ''_'' @ str_int (unix_seconds clk),
      alert_timestamp = timestamp reading,
      alert_type = ''wind'',
      severity = (if wind_type = ''extreme'' then ''extreme'' else ''high''),
      message = title wind_type @ '' winds: '' @ str_float rt (wind_speed_mph reading)
                  @ '' mph from '' @ wind_direction reading,
      recommendations =
        [''Secure outdoor equipment and signage'',
         ''Check building integrity'',
         ''Avoid outdoor activities'',
         ''Monitor for power outages'']
        @ (if wind_type = ''extreme''
           then [''Consider facility evacuation if necessary'',
                 ''Prepare for extended power outages'',
                 ''Coordinate with emergency services'']
           else []),
      affected_services = [''facility_operations'', ''outdoor_events'', ''transportation'']\<rparr>"

definition create_visibility_alert :: "runtime \<Rightarrow> clock \<Rightarrow> WeatherReading \<Rightarrow> WeatherAlert" where
  "create_visibility_alert rt clk reading =
     \<lparr>alert_id = ''visibility_'' @ str_int (unix_seconds clk),
      alert_timestamp = timestamp reading,
      alert_type = ''visibility'',
      severity = ''medium'',
      message = ''Low visibility conditions: '' @ str_float rt (visibility_miles reading)
                  @ '' miles'',
      recommendations =
        [''Use caution with transportation services'',
         ''Increase lighting at outdoor facilities'',
         ''Consider delaying non-essential travel'',
         ''Enhance safety protocols for outdoor staff''],
      affected_services = [''transportation'', ''outreach'', ''outdoor_events'']\<rparr>"

definition create_uv_alert :: "clock \<Rightarrow> WeatherReading \<Rightarrow> WeatherAlert" where
  "create_uv_alert clk reading =
     \<lparr>alert_id = ''uv_'' @ str_int (unix_seconds clk),
      alert_timestamp = timestamp reading,
      alert_type = ''uv'',
      severity = ''medium'',
      message = ''Extreme UV levels: Index '' @ str_int (uv_index reading),
      recommendations =
        [''Provide sunscreen at outdoor events'',
         ''Ensure shaded areas are available'',
         ''Limit prolonged outdoor exposure'',
         ''Educate staff about UV protection''],
      affected_services = [''outdoor_events'', ''outreach'', ''recreation'']\<rparr>"

text \<open>
  The five blocks of \<open>_check_weather_alerts\<close>, each an \<open>if\<close>/\<open>elif\<close> over
  \<open>self.alert_thresholds[...]\<close>: a missing key raises \<open>KeyError\<close>, a threshold that
  is no number raises \<open>TypeError\<close>. The \<open>elif\<close> condition is evaluated only when the
  \<open>if\<close> condition is false.
\<close>

definition temperature_alerts ::
  "runtime \<Rightarrow> clock \<Rightarrow> (string \<times> pyval) list \<Rightarrow> WeatherReading \<Rightarrow> error + WeatherAlert list"
where
  "temperature_alerts rt clk th reading =
     bind_e (getitem th ''temperature_high'') (\<lambda>hi.
     bind_e (py_ge (temperature_f reading) hi) (\<lambda>is_high.
       if is_high then Inr [create_temperature_alert rt clk reading ''high'']
       else
         bind_e (getitem th ''temperature_low'') (\<lambda>lo.
         bind_e (py_le (temperature_f reading) lo) (\<lambda>is_low.
           if is_low then Inr [create_temperature_alert rt clk reading ''low'']
           else Inr []))))"

definition precipitation_alerts ::
  "runtime \<Rightarrow> clock \<Rightarrow> (string \<times> pyval) list \<Rightarrow> WeatherReading \<Rightarrow> error + WeatherAlert list"
where
  "precipitation_alerts rt clk th reading =
     bind_e (getitem th ''precipitation_extreme'') (\<lambda>ex.
     bind_e (py_ge (precipitation_inches reading) ex) (\<lambda>is_extreme.
       if is_extreme then Inr [create_precipitation_alert rt clk reading ''extreme'']
       else
         bind_e (getitem th ''precipitation_heavy'') (\<lambda>hv.
         bind_e (py_ge (precipitation_inches reading) hv) (\<lambda>is_heavy.
           if is_heavy then Inr [create_precipitation_alert rt clk reading ''heavy'']
           else Inr []))))"

definition wind_alerts ::
  "runtime \<Rightarrow> clock \<Rightarrow> (string \<times> pyval) list \<Rightarrow> WeatherReading \<Rightarrow> error + WeatherAlert list"
where
  "wind_alerts rt clk th reading =
     bind_e (getitem th ''wind_extreme'') (\<lambda>ex.
     bind_e (py_ge (wind_speed_mph reading) ex) (\<lambda>is_extreme.
       if is_extreme then Inr [create_wind_alert rt clk reading ''extreme'']
       else
         bind_e (getitem th ''wind_high'') (\<lambda>hi.
         bind_e (py_ge (wind_speed_mph reading) hi) (\<lambda>is_high.
           if is_high then Inr [create_wind_alert rt clk reading ''high'']
           else Inr []))))"

definition visibility_alerts ::
  "runtime \<Rightarrow> clock \<Rightarrow> (string \<times> pyval) list \<Rightarrow> WeatherReading \<Rightarrow> error + WeatherAlert list"
where
  "visibility_alerts rt clk th reading =
     bind_e (getitem th ''visibility_low'') (\<lambda>lo.
     bind_e (py_le (visibility_miles reading) lo) (\<lambda>is_low.
       if is_low then Inr [create_visibility_alert rt clk reading] else Inr []))"

definition uv_alerts ::
  "clock \<Rightarrow> (string \<times> pyval) list \<Rightarrow> WeatherReading \<Rightarrow> error + WeatherAlert list"
where
  "uv_alerts clk th reading =
     bind_e (getitem th ''uv_extreme'') (\<lambda>ex.
     bind_e (py_ge (of_int (uv_index reading)) ex) (\<lambda>is_extreme.
       if is_extreme then Inr [create_uv_alert clk reading] else Inr []))"

text \<open>\<open>alerts_generated\<close>, as the five blocks build it.\<close>

definition alerts_generated ::
  "runtime \<Rightarrow> clock \<Rightarrow> (string \<times> pyval) list \<Rightarrow> WeatherReading \<Rightarrow> error + WeatherAlert list"
where
  "alerts_generated rt clk th reading =
     bind_e (temperature_alerts rt clk th reading) (\<lambda>t.
     bind_e (precipitation_alerts rt clk th reading) (\<lambda>p.
     bind_e (wind_alerts rt clk th reading) (\<lambda>w.
     bind_e (visibility_alerts rt clk th reading) (\<lambda>v.
     bind_e (uv_alerts clk th reading) (\<lambda>u.
       Inr (t @ p @ w @ v @ u))))))"

definition broadcast_weather_alert :: "clock \<Rightarrow> agent \<Rightarrow> WeatherAlert \<Rightarrow> CrossLanguageMessage" where
  "broadcast_weather_alert clk a alert =
     CrossLanguageMessage_init clk
       (PStr (''weather_alert_'' @ str_int (unix_millis clk)))
       (PStr ''weather_alert'')
       (own_source a)
       (PDict [(''broadcast'', PBool True)])
       (PDict [(''location'', PStr (location a)),
               (''alert'', PDict (WeatherAlert_to_dict alert))])
       (PDict [(''priority'', PStr ''high''), (''retryCount'', PInt 0),
               (''maxRetries'', PInt 3), (''timeoutMs'', PInt 5000)])"

text \<open>
  The purge: the list comprehension keeps an alert when its parsed timestamp is
  later than the cutoff. A timestamp that does not parse raises \<open>ValueError\<close> (the
  parser's answer), and a naive datetime cannot be compared with the aware cutoff
  (\<open>TypeError\<close>); the comprehension then raises and the list is not replaced.
\<close>

definition newer_than :: "runtime \<Rightarrow> int \<Rightarrow> string \<Rightarrow> error + bool" where
  "newer_than rt cutoff ts =
     bind_e (fromisoformat rt (replace_Z ts)) (\<lambda>d.
       case d of Aware t \<Rightarrow> Inr (t > cutoff) | Naive t \<Rightarrow> Inl TypeError)"

fun keep_recent :: "runtime \<Rightarrow> int \<Rightarrow> WeatherAlert list \<Rightarrow> error + WeatherAlert list" where
  "keep_recent rt cutoff [] = Inr []"
| "keep_recent rt cutoff (al # als) =
     bind_e (newer_than rt cutoff (alert_timestamp al)) (\<lambda>keep.
     bind_e (keep_recent rt cutoff als) (\<lambda>rest.
       Inr (if keep then al # rest else rest)))"

text \<open>\<open>timedelta(hours=6)\<close> in microseconds.\<close>

definition retention_window :: int where
  "retention_window = 6 * 3600 * 1000000"

text \<open>
  \<open>_check_weather_alerts\<close>. The result is what the call raises or \<open>()\<close>, the agent
  afterwards, and the alert envelopes sent, in order. When a threshold lookup
  raises, nothing was appended or sent yet; when the purge raises, the new alerts
  are already appended and sent. The clock is read once for the call.
\<close>

definition check_weather_alerts ::
  "runtime \<Rightarrow> clock \<Rightarrow> agent \<Rightarrow> WeatherReading
     \<Rightarrow> (error + unit) \<times> agent \<times> CrossLanguageMessage list"
where
  "check_weather_alerts rt clk a reading =
     (case alerts_generated rt clk (alert_thresholds a) reading of
        Inl e \<Rightarrow> (Inl e, a, [])
      | Inr gen \<Rightarrow>
          (let a1 = a\<lparr>active_alerts := active_alerts a @ gen\<rparr>;
               sent = map (broadcast_weather_alert clk a) gen;
               cutoff_time = utc_now clk - retention_window
           in case keep_recent rt cutoff_time (active_alerts a1) of
                Inl e \<Rightarrow> (Inl e, a1, sent)
              | Inr kept \<Rightarrow> (Inr (), a1\<lparr>active_alerts := kept\<rparr>, sent)))"

section \<open>Threshold updates\<close>

text \<open>
  \<open>x.get(key, default)\<close> and \<open>x.items()\<close>: only a dictionary has these methods, any
  other value raises \<open>AttributeError\<close>.
\<close>

definition py_get :: "pyval \<Rightarrow> string \<Rightarrow> pyval \<Rightarrow> error + pyval" where
  "py_get x k dflt =
     (case x of
        PDict d \<Rightarrow> Inr (case map_of d k of Some v \<Rightarrow> v | None \<Rightarrow> dflt)
      | _ \<Rightarrow> Inl AttributeError)"

definition py_items :: "pyval \<Rightarrow> error + (string \<times> pyval) list" where
  "py_items x = (case x of PDict d \<Rightarrow> Inr d | _ \<Rightarrow> Inl AttributeError)"

text \<open>
  The loop \<open>for key, value in new_thresholds.items(): if key in self.alert_thresholds:
  self.alert_thresholds[key] = value\<close>. Assigning to an existing key keeps its place.
\<close>

fun update_thresholds ::
  "(string \<times> pyval) list \<Rightarrow> (string \<times> pyval) list \<Rightarrow> (string \<times> pyval) list"
where
  "update_thresholds [] th = th"
| "update_thresholds ((k, v) # kvs) th =
     update_thresholds kvs (if k \<in> set (map fst th) then AList.update k v th else th)"

text \<open>
  \<open>handle_update_alert_thresholds\<close>. A payload that is no dictionary, or whose
  \<open>thresholds\<close> entry is no dictionary, raises before anything is changed or sent;
  \<open>process_message\<close> catches the exception and answers with an error envelope.
\<close>

definition handle_update_alert_thresholds ::
  "clock \<Rightarrow> agent \<Rightarrow> CrossLanguageMessage \<Rightarrow> (error + CrossLanguageMessage) \<times> agent"
where
  "handle_update_alert_thresholds clk a msg =
     (case bind_e (py_get (payload msg) ''thresholds'' (PDict [])) py_items of
        Inl e \<Rightarrow> (Inl e, a)
      | Inr new_thresholds \<Rightarrow>
          (let a' = a\<lparr>alert_thresholds := update_thresholds new_thresholds (alert_thresholds a)\<rparr>
           in (Inr (CrossLanguageMessage_init clk
                     (PStr (''thresholds_response_'' @ str_int (unix_millis clk)))
                     (PStr ''thresholds_update_response'')
                     (own_source a')
                     (source msg)
                     (PDict [(''success'', PBool True),
                             (''updated_thresholds'', PDict (alert_thresholds a'))])
                     (PDict [(''priority'', PStr ''normal''),
                             (''correlationId'', msg_id msg),
                             (''retryCount'', PInt 0), (''maxRetries'', PInt 0),
                             (''timeoutMs'', PInt 5000)])),
               a')))"

section \<open>Starting and stopping the monitoring task\<close>

text \<open>The asyncio calls a start or a stop performs, in order.\<close>

datatype effect = CreateTask | CancelTask | AwaitTask

definition start_weather_monitoring :: "agent \<Rightarrow> int \<Rightarrow> bool \<times> agent \<times> effect list" where
  "start_weather_monitoring a duration_hours =
     (if monitoring_active a then (False, a, [])
      else (True,
            a\<lparr>monitoring_active := True,
              monitoring_task := Some \<lparr>task_duration_hours = duration_hours,
                                       task_cancel_requested = False, task_done = False\<rparr>\<rparr>,
            [CreateTask]))"

text \<open>
  \<open>task.cancel()\<close> requests the cancellation of a task that is not done.
  \<open>await task\<close> returns, or raises the \<open>CancelledError\<close> that the source swallows,
  only once the task is done. What the task itself does between the two calls is
  not part of \<open>stop_weather_monitoring\<close>.
\<close>

definition cancel_task :: "task \<Rightarrow> task" where
  "cancel_task t = (if task_done t then t else t\<lparr>task_cancel_requested := True\<rparr>)"

definition await_task :: "task \<Rightarrow> task" where
  "await_task t = t\<lparr>task_done := True\<rparr>"

definition stop_weather_monitoring :: "agent \<Rightarrow> bool \<times> agent \<times> effect list" where
  "stop_weather_monitoring a =
     (if \<not> monitoring_active a then (False, a, [])
      else
        (let a1 = a\<lparr>monitoring_active := False\<rparr>
         in case monitoring_task a1 of
              None \<Rightarrow> (True, a1, [])
            | Some t \<Rightarrow>
                (True, a1\<lparr>monitoring_task := Some (await_task (cancel_task t))\<rparr>,
                 [CancelTask, AwaitTask])))"

section \<open>The advisory mirror\<close>

text \<open>
  \<open>_check_noaa_alerts\<close>. \<open>avail\<close> is the module's \<open>NOAA_AVAILABLE\<close>; \<open>fetched\<close> is
  what \<open>get_active_alerts\<close> does in this poll, a list or an exception. The result
  is the agent afterwards and the alerts handed to \<open>_broadcast_noaa_alert\<close>, in
  order. The identifiers compared against are those of \<open>self.noaa_alerts\<close>, the
  list the previous poll stored.
\<close>

definition noaa_enabled :: "bool \<Rightarrow> agent \<Rightarrow> bool" where
  "noaa_enabled avail a =
     (use_real_weather a \<and> noaa_service a \<and> noaa_location a \<noteq> None \<and> avail)"

definition check_noaa_alerts ::
  "bool \<Rightarrow> agent \<Rightarrow> error + NOAAAlert list \<Rightarrow> agent \<times> NOAAAlert list"
where
  "check_noaa_alerts avail a fetched =
     (if \<not> noaa_enabled avail a then (a, [])
      else
        (case fetched of
           Inl e \<Rightarrow> (a, [])
         | Inr current_alerts \<Rightarrow>
             (let existing_alert_ids = set (map noaa_alert_id (noaa_alerts a));
                  new_alerts = filter (\<lambda>alert. noaa_alert_id alert \<notin> existing_alert_ids)
                                 current_alerts
              in (a\<lparr>noaa_alerts := current_alerts\<rparr>, new_alerts))))"

text \<open>A sequence of polls: the alerts broadcast by each poll, and the agent at the end.\<close>

fun poll_sequence ::
  "bool \<Rightarrow> agent \<Rightarrow> (error + NOAAAlert list) list \<Rightarrow> NOAAAlert list list \<times> agent"
where
  "poll_sequence avail a [] = ([], a)"
| "poll_sequence avail a (fetched # rest) =
     (let (a1, sent) = check_noaa_alerts avail a fetched;
          (sents, a2) = poll_sequence avail a1 rest
      in (sent # sents, a2))"

text \<open>How often an identifier was broadcast over a sequence of polls.\<close>

definition broadcast_count :: "string \<Rightarrow> NOAAAlert list list \<Rightarrow> nat" where
  "broadcast_count ident sents = length (filter (\<lambda>al. noaa_alert_id al = ident) (concat sents))"





section \<open>The simulator\<close>

text \<open>
  The outcomes of the calls to \<open>random\<close> that one \<open>generate_hourly_reading\<close> can
  make, in the order of the source; a draw whose branch is not taken is not used.
\<close>

record draws =
  temp_noise :: real
  humidity_noise :: real
  precip_chance :: real
  precip_light :: real
  precip_heavy :: real
  wind_base :: real
  wind_storm :: real
  wind_noise :: real
  direction_index :: nat
  pressure_noise :: real
  uv_draw :: int
  trend_chance_temperature :: real
  trend_new_temperature :: real
  trend_chance_pressure :: real
  trend_new_pressure :: real
  trend_chance_storm :: real
  trend_storm_delta :: real

text \<open>
  The ranges of the draws: \<open>random()\<close> in \<open>[0, 1)\<close>, \<open>uniform(a, b)\<close> in \<open>[a, b]\<close>,
  \<open>randint(0, 2)\<close>, an index into the sixteen directions.
  \<open>normalvariate(mu, sigma)\<close> returns \<open>mu + z * sigma\<close> for a \<open>z\<close> that it accepts
  only when \<open>z * z / 4 \<le> - log u2\<close>, where \<open>u2 = 1 - random()\<close> is at least
  \<open>2 ^ -53\<close>; so \<open>z\<close> lies within 12.13 of zero, and a noise of deviation 3, 10
  or 5 within 36.39, 121.3 or 60.65.
\<close>

definition draws_ok :: "draws \<Rightarrow> bool" where
  "draws_ok d =
     (- (3639/100) \<le> temp_noise d \<and> temp_noise d \<le> 3639/100
      \<and> - (1213/10) \<le> humidity_noise d \<and> humidity_noise d \<le> 1213/10
      \<and> 0 \<le> precip_chance d \<and> precip_chance d < 1
      \<and> 1/100 \<le> precip_light d \<and> precip_light d \<le> 1/2
      \<and> 1/2 \<le> precip_heavy d \<and> precip_heavy d \<le> 2
      \<and> 0 \<le> wind_base d \<and> wind_base d \<le> 10
      \<and> 5 \<le> wind_storm d \<and> wind_storm d \<le> 20
      \<and> - (3639/100) \<le> wind_noise d \<and> wind_noise d \<le> 3639/100
      \<and> direction_index d < 16
      \<and> - (6065/100) \<le> pressure_noise d \<and> pressure_noise d \<le> 6065/100
      \<and> 0 \<le> uv_draw d \<and> uv_draw d \<le> 2
      \<and> 0 \<le> trend_chance_temperature d \<and> trend_chance_temperature d < 1
      \<and> - 5 \<le> trend_new_temperature d \<and> trend_new_temperature d \<le> 5
      \<and> 0 \<le> trend_chance_pressure d \<and> trend_chance_pressure d < 1
      \<and> - 10 \<le> trend_new_pressure d \<and> trend_new_pressure d \<le> 10
      \<and> 0 \<le> trend_chance_storm d \<and> trend_chance_storm d < 1
      \<and> - (1/5) \<le> trend_storm_delta d \<and> trend_storm_delta d \<le> 1/5)"

text \<open>
  The simulator states the code reaches. The agent and the tests construct the
  simulator with base temperature 70 and both trends zero, nothing writes
  \<open>base_temp\<close> afterwards, and \<open>_update_trends\<close> sets a trend only to a draw of
  \<open>uniform(-5, 5)\<close> or \<open>uniform(-10, 10)\<close>.
\<close>

definition simulator_ok :: "WeatherSimulator \<Rightarrow> bool" where
  "simulator_ok sim =
     (base_temp sim = 70
      \<and> - 5 \<le> temperature_trend sim \<and> temperature_trend sim \<le> 5
      \<and> - 10 \<le> pressure_trend sim \<and> pressure_trend sim \<le> 10)"

text \<open>
  \<open>round(x, ndigits)\<close> rounds to the nearest multiple of \<open>10 ^ -ndigits\<close>, a tie
  going to the even neighbour; \<open>int(x)\<close> truncates towards zero.
\<close>

definition py_round :: "real \<Rightarrow> nat \<Rightarrow> real" where
  "py_round x ndigits =
     (let y = x * 10 ^ ndigits;
          f = \<lfloor>y\<rfloor>;
          frac = y - of_int f;
          n = (if frac < 1/2 then f
               else if 1/2 < frac then f + 1
               else if even f then f else f + 1)
      in of_int n / 10 ^ ndigits)"

definition py_int :: "real \<Rightarrow> int" where
  "py_int x = (if 0 \<le> x then \<lfloor>x\<rfloor> else \<lceil>x\<rceil>)"

definition directions :: "string list" where
  "directions =
     [''N'', ''NNE'', ''NE'', ''ENE'', ''E'', ''ESE'', ''SE'', ''SSE'',
      ''S'', ''SSW'', ''SW'', ''WSW'', ''W'', ''WNW'', ''NW'', ''NNW'']"

text \<open>\<open>_update_trends\<close>.\<close>

definition update_trends :: "draws \<Rightarrow> WeatherSimulator \<Rightarrow> WeatherSimulator" where
  "update_trends d sim =
     (let s1 = (if trend_chance_temperature d < 1/10
                then sim\<lparr>temperature_trend := trend_new_temperature d\<rparr> else sim);
          s2 = (if trend_chance_pressure d < 15/100
                then s1\<lparr>pressure_trend := trend_new_pressure d\<rparr> else s1)
      in if trend_chance_storm d < 1/5
         then s2\<lparr>storm_probability :=
                   max (5/100) (min (8/10) (storm_probability s2 + trend_storm_delta d))\<rparr>
         else s2)"

text \<open>The quantities \<open>generate_hourly_reading\<close> computes, one definition per variable.\<close>

definition sim_hour_of_day :: "clock \<Rightarrow> int \<Rightarrow> int" where
  "sim_hour_of_day clk hour_offset = (local_hour clk + hour_offset) mod 24"

definition sim_temperature :: "clock \<Rightarrow> draws \<Rightarrow> WeatherSimulator \<Rightarrow> int \<Rightarrow> real" where
  "sim_temperature clk d sim hour_offset =
     (let daily_temp_variation =
            15 * (1/2 - \<bar>of_int (sim_hour_of_day clk hour_offset) - 14\<bar> / 24)
      in base_temp sim + daily_temp_variation + temp_noise d + temperature_trend sim)"

definition sim_humidity :: "clock \<Rightarrow> draws \<Rightarrow> WeatherSimulator \<Rightarrow> int \<Rightarrow> real" where
  "sim_humidity clk d sim hour_offset =
     (let base_humidity =
            max 30 (min 90 (80 - (sim_temperature clk d sim hour_offset - base_temp sim) * (3/2)))
      in max 20 (min 95 (base_humidity + humidity_noise d)))"

definition sim_precipitation :: "draws \<Rightarrow> WeatherSimulator \<Rightarrow> real" where
  "sim_precipitation d sim =
     (if precip_chance d < storm_probability sim
      then (if precip_chance d < storm_probability sim * (2/10)
            then precip_heavy d else precip_light d)
      else 0)"

definition sim_wind_speed :: "draws \<Rightarrow> WeatherSimulator \<Rightarrow> real" where
  "sim_wind_speed d sim =
     (let base_wind = 5 + wind_base d
                      + (if sim_precipitation d sim > 1/10 then wind_storm d else 0)
      in max 0 (base_wind + wind_noise d))"

definition sim_pressure :: "draws \<Rightarrow> WeatherSimulator \<Rightarrow> real" where
  "sim_pressure d sim = 101325/100 + pressure_trend sim + pressure_noise d"

definition sim_visibility :: "clock \<Rightarrow> draws \<Rightarrow> WeatherSimulator \<Rightarrow> int \<Rightarrow> real" where
  "sim_visibility clk d sim hour_offset =
     (let v1 = (if sim_precipitation d sim > 1/10
                then max (1/2) (10 - sim_precipitation d sim * 8) else 10)
      in if sim_humidity clk d sim hour_offset > 85 then min v1 5 else v1)"

definition sim_conditions :: "clock \<Rightarrow> draws \<Rightarrow> WeatherSimulator \<Rightarrow> int \<Rightarrow> string" where
  "sim_conditions clk d sim hour_offset =
     (let temperature = sim_temperature clk d sim hour_offset;
          precipitation = sim_precipitation d sim
      in if precipitation > 1/2 then (if temperature > 32 then ''Heavy Rain'' else ''Heavy Snow'')
         else if precipitation > 1/10 then (if temperature > 32 then ''Rain'' else ''Snow'')
         else if sim_humidity clk d sim hour_offset > 85 then ''Fog''
         else if sim_wind_speed d sim > 25 then ''Windy''
         else if temperature > 90 then ''Hot''
         else if temperature < 32 then ''Cold''
         else ''Clear'')"

definition sim_uv_index :: "clock \<Rightarrow> draws \<Rightarrow> WeatherSimulator \<Rightarrow> int \<Rightarrow> int" where
  "sim_uv_index clk d sim hour_offset =
     (let hour_of_day = sim_hour_of_day clk hour_offset
      in if 6 \<le> hour_of_day \<and> hour_of_day \<le> 18
            \<and> sim_conditions clk d sim hour_offset \<in> {''Clear'', ''Hot''}
         then min 11 (max 1 (py_int ((of_int hour_of_day - 6) / 2) + uv_draw d))
         else 0)"

text \<open>
  \<open>generate_hourly_reading\<close>: the reading, rounded as the source rounds it, and the
  simulator after \<open>_update_trends\<close>.
\<close>

definition generate_hourly_reading ::
  "runtime \<Rightarrow> clock \<Rightarrow> draws \<Rightarrow> WeatherSimulator \<Rightarrow> int \<Rightarrow> WeatherReading \<times> WeatherSimulator"
where
  "generate_hourly_reading rt clk d sim hour_offset =
     (\<lparr>timestamp = isoformat rt (utc_now clk + hour_offset * 3600 * 1000000),
       temperature_f = py_round (sim_temperature clk d sim hour_offset) 1,
       humidity_percent = py_round (sim_humidity clk d sim hour_offset) 1,
       precipitation_inches = py_round (sim_precipitation d sim) 2,
       wind_speed_mph = py_round (sim_wind_speed d sim) 1,
       wind_direction = directions ! direction_index d,
       pressure_mb = py_round (sim_pressure d sim) 1,
       visibility_miles = py_round (sim_visibility clk d sim hour_offset) 1,
       conditions = sim_conditions clk d sim hour_offset,
       uv_index = sim_uv_index clk d sim hour_offset\<rparr>,
      update_trends d sim)"

section \<open>The monitoring cycle\<close>

record NOAAWeatherReading =
  nr_timestamp :: string
  nr_temperature_f :: "real option"
  nr_humidity_percent :: "real option"
  nr_wind_speed_mph :: "real option"
  nr_wind_direction :: "string option"
  nr_pressure_mb :: "real option"
  nr_visibility_miles :: "real option"
  nr_conditions :: string
  nr_detailed_forecast :: string
  nr_source :: string

text \<open>\<open>x or default\<close>: \<open>None\<close>, zero and the empty string are false.\<close>

definition or_float :: "real option \<Rightarrow> real \<Rightarrow> real" where
  "or_float x dflt = (case x of None \<Rightarrow> dflt | Some v \<Rightarrow> if v = 0 then dflt else v)"

definition or_str :: "string option \<Rightarrow> string \<Rightarrow> string" where
  "or_str x dflt = (case x of None \<Rightarrow> dflt | Some v \<Rightarrow> if v = [] then dflt else v)"

definition convert_noaa_reading :: "NOAAWeatherReading \<Rightarrow> WeatherReading" where
  "convert_noaa_reading nr =
     \<lparr>timestamp = nr_timestamp nr,
      temperature_f = or_float (nr_temperature_f nr) 70,
      humidity_percent = or_float (nr_humidity_percent nr) 50,
      precipitation_inches = 0,
      wind_speed_mph = or_float (nr_wind_speed_mph nr) 0,
      wind_direction = or_str (nr_wind_direction nr) ''N'',
      pressure_mb = or_float (nr_pressure_mb nr) 1013,
      visibility_miles = or_float (nr_visibility_miles nr) 10,
      conditions = nr_conditions nr,
      uv_index = 0\<rparr>"

text \<open>
  Where a reading came from. The source keeps no such tag; it names the branch of
  the loop body that produced the reading.
\<close>

datatype provenance = Live | Simulated

text \<open>
  The first block of the loop body of \<open>_monitoring_loop\<close>. \<open>fetched\<close> is what
  \<open>get_current_weather\<close> does in this cycle: an exception, \<open>None\<close> or a reading.
\<close>

definition acquire_reading ::
  "runtime \<Rightarrow> clock \<Rightarrow> draws \<Rightarrow> agent \<Rightarrow> error + NOAAWeatherReading option
     \<Rightarrow> WeatherReading \<times> provenance \<times> agent"
where
  "acquire_reading rt clk d a fetched =
     (let (sim_reading, sim') = generate_hourly_reading rt clk d (simulator a) 0
      in if use_real_weather a \<and> noaa_service a \<and> noaa_location a \<noteq> None
         then (case fetched of
                 Inr (Some noaa_reading) \<Rightarrow> (convert_noaa_reading noaa_reading, Live, a)
               | Inr None \<Rightarrow> (sim_reading, Simulated, a\<lparr>simulator := sim'\<rparr>)
               | Inl e \<Rightarrow> (sim_reading, Simulated, a\<lparr>simulator := sim'\<rparr>))
         else (sim_reading, Simulated, a\<lparr>simulator := sim'\<rparr>))"

definition broadcast_weather_update :: "clock \<Rightarrow> agent \<Rightarrow> WeatherReading \<Rightarrow> CrossLanguageMessage" where
  "broadcast_weather_update clk a reading =
     CrossLanguageMessage_init clk
       (PStr (''weather_update_'' @ str_int (unix_millis clk)))
       (PStr ''weather_update'')
       (own_source a)
       (PDict [(''broadcast'', PBool True)])
       (PDict [(''location'', PStr (location a)),
               (''weather_data'', PDict (WeatherReading_to_dict reading)),
               (''data_quality'', PStr ''simulated'')])
       (PDict [(''priority'', PStr ''normal''), (''retryCount'', PInt 0),
               (''maxRetries'', PInt 0), (''timeoutMs'', PInt 5000)])"

definition handle_get_current_weather :: "clock \<Rightarrow> agent \<Rightarrow> CrossLanguageMessage \<Rightarrow> CrossLanguageMessage" where
  "handle_get_current_weather clk a msg =
     (let current_weather = (if weather_data a = [] then None else Some (last (weather_data a)))
      in CrossLanguageMessage_init clk
           (PStr (''weather_response_'' @ str_int (unix_millis clk)))
           (PStr ''weather_response'')
           (own_source a)
           (source msg)
           (PDict [(''location'', PStr (location a)),
                   (''current_weather'',
                      (case current_weather of
                         Some r \<Rightarrow> PDict (WeatherReading_to_dict r) | None \<Rightarrow> PNone)),
                   (''monitoring_active'', PBool (monitoring_active a))])
           (PDict [(''priority'', PStr ''normal''),
                   (''correlationId'', msg_id msg),
                   (''retryCount'', PInt 0), (''maxRetries'', PInt 0),
                   (''timeoutMs'', PInt 5000)]))"

definition NOAALocation_to_dict :: "NOAALocation \<Rightarrow> (string \<times> pyval) list" where
  "NOAALocation_to_dict l =
     [(''latitude'', PFloat (latitude l)), (''longitude'', PFloat (longitude l)),
      (''grid_id'', PStr (grid_id l)), (''grid_x'', PInt (grid_x l)),
      (''grid_y'', PInt (grid_y l)), (''forecast_office'', PStr (forecast_office l)),
      (''city'', PStr (city l)), (''state'', PStr (state l))]"

definition NOAAAlert_to_dict :: "NOAAAlert \<Rightarrow> (string \<times> pyval) list" where
  "NOAAAlert_to_dict al =
     [(''alert_id'', PStr (noaa_alert_id al)), (''event'', PStr (event al)),
      (''severity'', PStr (noaa_severity al)), (''certainty'', PStr (certainty al)),
      (''urgency'', PStr (urgency al)), (''headline'', PStr (headline al)),
      (''description'', PStr (description al)),
      (''instruction'', (case instruction al of None \<Rightarrow> PNone | Some i \<Rightarrow> PStr i)),
      (''areas'', PList (map PStr (areas al))),
      (''effective'', PStr (effective al)), (''expires'', PStr (expires al)),
      (''sender'', PStr (sender al)), (''status'', PStr (status al)),
      (''message_type'', PStr (message_type al))]"

definition broadcast_noaa_alert :: "clock \<Rightarrow> agent \<Rightarrow> NOAAAlert \<Rightarrow> CrossLanguageMessage" where
  "broadcast_noaa_alert clk a al =
     CrossLanguageMessage_init clk
       (PStr (''noaa_alert_'' @ str_int (unix_millis clk)))
       (PStr ''noaa_weather_alert'')
       (own_source a)
       (PDict [(''broadcast'', PBool True)])
       (PDict [(''location'', PStr (location a)),
               (''noaa_location'',
                  (case noaa_location a of
                     Some l \<Rightarrow> PDict (NOAALocation_to_dict l) | None \<Rightarrow> PNone)),
               (''alert'', PDict (NOAAAlert_to_dict al))])
       (PDict [(''priority'',
                  PStr (if noaa_severity al \<in> {''Extreme'', ''Severe''}
                        then ''high'' else ''normal'')),
               (''retryCount'', PInt 0), (''maxRetries'', PInt 3),
               (''timeoutMs'', PInt 5000)])"

text \<open>
  \<open>handle_get_noaa_alerts\<close>: the response says whether the live provider is in
  use (\<open>noaa_enabled\<close>) and whether the agent runs in fallback mode.
\<close>

definition handle_get_noaa_alerts ::
  "bool \<Rightarrow> clock \<Rightarrow> agent \<Rightarrow> CrossLanguageMessage \<Rightarrow> CrossLanguageMessage"
where
  "handle_get_noaa_alerts avail clk a msg =
     (let response_payload =
            [(''location'', PStr (location a)),
             (''noaa_enabled'', PBool (use_real_weather a)),
             (''fallback_mode'', PBool (\<not> (use_real_weather a \<and> avail))),
             (''alerts'',
                PList (if avail then map (\<lambda>al. PDict (NOAAAlert_to_dict al)) (noaa_alerts a)
                       else [])),
             (''alert_count'', PInt (if avail then int (length (noaa_alerts a)) else 0))];
          with_location =
            (case noaa_location a of
               Some l \<Rightarrow>
                 if avail
                 then response_payload @ [(''noaa_location'', PDict (NOAALocation_to_dict l))]
                 else response_payload
             | None \<Rightarrow> response_payload)
      in CrossLanguageMessage_init clk
           (PStr (''noaa_alerts_response_'' @ str_int (unix_millis clk)))
           (PStr ''noaa_alerts_response'')
           (own_source a)
           (source msg)
           (PDict with_location)
           (PDict [(''priority'', PStr ''normal''),
                   (''correlationId'', msg_id msg),
                   (''retryCount'', PInt 0), (''maxRetries'', PInt 0),
                   (''timeoutMs'', PInt 5000)]))"

text \<open>\<open>self.weather_data[-168:]\<close> once the history is longer than 168.\<close>

definition append_reading :: "WeatherReading list \<Rightarrow> WeatherReading \<Rightarrow> WeatherReading list" where
  "append_reading history reading =
     (let wd = history @ [reading]
      in if length wd > 168 then drop (length wd - 168) wd else wd)"

text \<open>
  One pass of the loop body: acquire, append, evaluate alerts, poll advisories,
  broadcast the update. An exception out of the alert evaluation leaves the loop
  through its handler, whose \<open>finally\<close> clears \<open>monitoring_active\<close>. The result
  also names the branch that produced the reading.
\<close>

definition monitoring_cycle ::
  "runtime \<Rightarrow> bool \<Rightarrow> clock \<Rightarrow> draws \<Rightarrow> agent \<Rightarrow> error + NOAAWeatherReading option
     \<Rightarrow> error + NOAAAlert list
     \<Rightarrow> (error + unit) \<times> agent \<times> CrossLanguageMessage list \<times> provenance"
where
  "monitoring_cycle rt avail clk d a fetched_reading fetched_alerts =
     (let (reading, prov, a1) = acquire_reading rt clk d a fetched_reading;
          a2 = a1\<lparr>weather_data := append_reading (weather_data a1) reading\<rparr>
      in case check_weather_alerts rt clk a2 reading of
           (Inl e, a3, sent) \<Rightarrow> (Inl e, a3\<lparr>monitoring_active := False\<rparr>, sent, prov)
         | (Inr u, a3, sent) \<Rightarrow>
             (let (a4, new_alerts) = check_noaa_alerts avail a3 fetched_alerts
              in (Inr (), a4,
                  sent @ map (broadcast_noaa_alert clk a4) new_alerts
                       @ [broadcast_weather_update clk a4 reading],
                  prov)))"

section \<open>Operations of the agent\<close>

text \<open>
  The operations modelled above, with what each receives from outside, and a run
  of them from a given agent; every operation comes with the clock it reads.
\<close>

datatype agent_op =
    UpdateThresholds CrossLanguageMessage
  | StartMonitoring int
  | StopMonitoring
  | GetCurrentWeather CrossLanguageMessage
  | CheckWeatherAlerts WeatherReading
  | CheckNoaaAlerts "error + NOAAAlert list"
  | MonitoringCycle draws "error + NOAAWeatherReading option" "error + NOAAAlert list"

fun apply_op :: "runtime \<Rightarrow> bool \<Rightarrow> clock \<Rightarrow> agent \<Rightarrow> agent_op \<Rightarrow> agent" where
  "apply_op rt avail clk a (UpdateThresholds msg) = snd (handle_update_alert_thresholds clk a msg)"
| "apply_op rt avail clk a (StartMonitoring h) = fst (snd (start_weather_monitoring a h))"
| "apply_op rt avail clk a StopMonitoring = fst (snd (stop_weather_monitoring a))"
| "apply_op rt avail clk a (GetCurrentWeather msg) = a"
| "apply_op rt avail clk a (CheckWeatherAlerts reading) =
     fst (snd (check_weather_alerts rt clk a reading))"
| "apply_op rt avail clk a (CheckNoaaAlerts fetched) = fst (check_noaa_alerts avail a fetched)"
| "apply_op rt avail clk a (MonitoringCycle d fr fa) =
     fst (snd (monitoring_cycle rt avail clk d a fr fa))"

fun run_ops :: "runtime \<Rightarrow> bool \<Rightarrow> agent \<Rightarrow> (clock \<times> agent_op) list \<Rightarrow> agent" where
  "run_ops rt avail a [] = a"
| "run_ops rt avail a ((clk, op) # ops) = run_ops rt avail (apply_op rt avail clk a op) ops"

text \<open>The payloads on which the threshold handler does not raise.\<close>

fun thresholds_payload_ok :: "pyval \<Rightarrow> bool" where
  "thresholds_payload_ok (PDict p) =
     (case map_of p ''thresholds'' of None \<Rightarrow> True | Some (PDict t) \<Rightarrow> True | Some _ \<Rightarrow> False)"
| "thresholds_payload_ok _ = False"

text \<open>The \<open>thresholds\<close> entries of a payload, \<open>{}\<close> when the entry is absent.\<close>

fun requested_thresholds :: "pyval \<Rightarrow> (string \<times> pyval) list" where
  "requested_thresholds (PDict p) =
     (case map_of p ''thresholds'' of Some (PDict t) \<Rightarrow> t | _ \<Rightarrow> [])"
| "requested_thresholds _ = []"

text \<open>The keys of a payload dictionary.\<close>

fun payload_keys :: "pyval \<Rightarrow> string list" where
  "payload_keys (PDict p) = map fst p"
| "payload_keys _ = []"

section \<open>Example values\<close>

text \<open>
  A clock at noon UTC on 1 July 2024, a runtime that parses and prints the two
  timestamps the examples use, and readings, alerts and agents built from them.
\<close>

definition example_clock :: clock where
  "example_clock =
     \<lparr>unix_seconds = 1719835200, unix_millis = 1719835200000,
      utc_now = 1719835200000000, utc_now_iso = ''2024-07-01T12:00:00+00:00'',
      local_hour = 12\<rparr>"

definition example_runtime :: runtime where
  "example_runtime =
     \<lparr>fromisoformat =
        (\<lambda>s. if s = ''2024-07-01T12:00:00+00:00'' then Inr (Aware 1719835200000000)
              else if s = ''2024-07-01T02:00:00+00:00'' then Inr (Aware 1719799200000000)
              else Inl ValueError),
      isoformat =
        (\<lambda>t. if t = 1719835200000000 then ''2024-07-01T12:00:00+00:00''
              else if t = 1719799200000000 then ''2024-07-01T02:00:00+00:00''
              else ''1970-01-01T00:00:00+00:00''),
      str_float = (\<lambda>x. if x = 96 then ''96.0'' else ''70.0'')\<rparr>"




definition example_agent :: agent where
  "example_agent = agent_init ''weather-1'' ''Boise, ID'' False"

definition example_location :: NOAALocation where
  "example_location =
     \<lparr>latitude = 43615/1000, longitude = - (1162023/10000), grid_id = ''BOI'',
      grid_x = 133, grid_y = 86, forecast_office = ''BOI'', city = ''Boise'', state = ''ID''\<rparr>"

text \<open>The agent after an initialisation that reached the live provider.\<close>

definition example_live_agent :: agent where
  "example_live_agent =
     (agent_init ''weather-1'' ''Boise, ID'' True)
       \<lparr>noaa_service := True, noaa_location := Some example_location\<rparr>"

definition example_noaa_alert :: "string \<Rightarrow> NOAAAlert" where
  "example_noaa_alert ident =
     \<lparr>noaa_alert_id = ident, event = ''Heat Advisory'', noaa_severity = ''Moderate'',
      certainty = ''Likely'', urgency = ''Expected'', headline = ''Heat Advisory'',
      description = ''Hot'', instruction = None, areas = [''Ada''],
      effective = ''2024-07-01T12:00:00+00:00'', expires = ''2024-07-02T12:00:00+00:00'',
      sender = ''NWS Boise ID'', status = ''Actual'', message_type = ''Alert''\<rparr>"

definition example_noaa_reading :: NOAAWeatherReading where
  "example_noaa_reading =
     \<lparr>nr_timestamp = ''2024-07-01T12:00:00+00:00'', nr_temperature_f = Some 88,
      nr_humidity_percent = Some 30, nr_wind_speed_mph = Some 6,
      nr_wind_direction = Some ''NW'', nr_pressure_mb = Some 1012,
      nr_visibility_miles = Some 10, nr_conditions = ''Sunny'',
      nr_detailed_forecast = ''Sunny, with a high near 90.'', nr_source = ''NOAA''\<rparr>"

definition example_draws :: draws where
  "example_draws =
     \<lparr>temp_noise = 0, humidity_noise = 0, precip_chance = 1/2, precip_light = 1/10,
      precip_heavy = 1, wind_base = 3, wind_storm = 10, wind_noise = 0,
      direction_index = 0, pressure_noise = 0, uv_draw = 1,
      trend_chance_temperature = 1/2, trend_new_temperature = 0,
      trend_chance_pressure = 1/2, trend_new_pressure = 0,
      trend_chance_storm = 1/2, trend_storm_delta = 0\<rparr>"

definition example_message :: "pyval \<Rightarrow> CrossLanguageMessage" where
  "example_message p =
     \<lparr>msg_id = PStr ''req-1'', msg_type = PStr ''update_alert_thresholds'',
      msg_timestamp = ''2024-07-01T02:00:00+00:00'',
      source = PDict [(''agentId'', PStr ''host''), (''language'', PStr ''javascript''),
                      (''runtime'', PStr ''nodejs'')],
      destination = PDict [(''agentId'', PStr ''weather-1'')],
      payload = p,
      metadata = PDict [(''priority'', PStr ''normal''), (''retryCount'', PInt 0),
                        (''maxRetries'', PInt 0), (''timeoutMs'', PInt 5000)]\<rparr>"


definition example_update_payload :: pyval where
  "example_update_payload =
     PDict [(''thresholds'', PDict [(''wind_high'', PFloat 35), (''bogus'', PInt 1)])]"


text \<open>
  One cycle of the live agent in which the provider returns a reading and no
  advisory.
\<close>

definition example_live_cycle ::
  "(error + unit) \<times> agent \<times> CrossLanguageMessage list \<times> provenance"
where
  "example_live_cycle =
     monitoring_cycle example_runtime True example_clock example_draws example_live_agent
       (Inr (Some example_noaa_reading)) (Inr [])"




section \<open>Retries of a throttled fetch\<close>

text \<open>
  Under sustained throttling every nested call issues one GET, and the call
  returns \<open>None\<close> when the interpreter allows no further one.
\<close>

lemma make_request_sustained_throttling:
  "make_request frames always_throttled n = (None, n + frames)"
  by (induction frames arbitrary: n) (simp_all add: always_throttled_def)

text \<open>
  C2. The claim bounds the retries of a throttled fetch by one. The code's own
  comment says "Retry once", but the retry is a plain recursive call: an upstream
  that answers 429 twice and then 200 is asked three times, that is retried
  twice, whenever the interpreter allows three nested calls.
\<close>

theorem C2_make_request_retries_twice:
  "make_request (Suc (Suc (Suc frames))) (throttled_then_ok 2 d) 0 = (Some d, 3)"
  by (simp add: throttled_then_ok_def numeral_3_eq_3)

section \<open>Capabilities against the registry\<close>

text \<open>
  C5. The capability list holds the base set and nine of the ten types that
  \<open>register_weather_handlers\<close> registers; \<open>update_alert_thresholds\<close> has a handler
  and is not announced. The sibling agent announces every type it registers.
\<close>

theorem C5_update_alert_thresholds_not_announced:
  "''update_alert_thresholds'' \<in> set register_weather_handlers
   \<and> ''update_alert_thresholds'' \<in> set message_handlers
   \<and> ''update_alert_thresholds'' \<notin> set get_capabilities
   \<and> set (remove1 ''update_alert_thresholds'' register_weather_handlers) \<subseteq> set get_capabilities
   \<and> {''ping'', ''status'', ''heartbeat''} \<subseteq> set get_capabilities
   \<and> set register_analytics_handlers \<subseteq> set analytics_get_capabilities"
  by (simp add: register_weather_handlers_def message_handlers_def get_capabilities_def
      register_analytics_handlers_def analytics_get_capabilities_def)

section \<open>Round trips\<close>

lemma WeatherReading_roundtrip:
  "WeatherReading_from_dict (WeatherReading_to_dict r) = Inr r"
  by (simp add: WeatherReading_from_dict_def WeatherReading_to_dict_def WeatherReading_fields_def)

lemma CrossLanguageMessage_roundtrip:
  "CrossLanguageMessage_from_dict clk (CrossLanguageMessage_to_dict m)
     = Inr (m\<lparr>msg_timestamp := utc_now_iso clk\<rparr>)"
  by (simp add: CrossLanguageMessage_from_dict_def CrossLanguageMessage_to_dict_def
      CrossLanguageMessage_init_def getitem_def bind_e_def)

section \<open>Alert evaluation\<close>











































section \<open>Threshold keys\<close>

lemma update_thresholds_keys:
  "map fst (update_thresholds kvs th) = map fst th"
proof (induction kvs arbitrary: th)
  case Nil
  show ?case by simp
next
  case (Cons kv kvs)
  obtain k v where kv: "kv = (k, v)" by (cases kv)
  show ?case unfolding kv by (simp add: Cons.IH AList.update_keys)
qed

lemma update_thresholds_map_of:
  "map_of (update_thresholds kvs th) k =
     (if k \<in> set (map fst th)
      then (case map_of (rev kvs) k of Some v \<Rightarrow> Some v | None \<Rightarrow> map_of th k)
      else None)"
proof (induction kvs arbitrary: th)
  case Nil
  show ?case by (auto simp: map_of_eq_None_iff)
next
  case (Cons kv kvs)
  obtain k0 v0 where kv: "kv = (k0, v0)" by (cases kv)
  let ?th = "if k0 \<in> set (map fst th) then AList.update k0 v0 th else th"
  have keys: "map fst ?th = map fst th" by (simp add: AList.update_keys)
  have m: "map_of ?th k = (if k0 \<in> set (map fst th) \<and> k = k0 then Some v0 else map_of th k)"
    by (simp add: AList.update_conv')
  have "map_of (update_thresholds (kv # kvs) th) k = map_of (update_thresholds kvs ?th) k"
    unfolding kv by simp
  also have "\<dots> = (if k \<in> set (map fst ?th)
      then (case map_of (rev kvs) k of Some v \<Rightarrow> Some v | None \<Rightarrow> map_of ?th k)
      else None)"
    by (rule Cons.IH)
  also have "\<dots> = (if k \<in> set (map fst th)
      then (case map_of (rev kvs) k of Some v \<Rightarrow> Some v
            | None \<Rightarrow> (if k0 \<in> set (map fst th) \<and> k = k0 then Some v0 else map_of th k))
      else None)"
    by (simp only: keys m)
  also have "\<dots> = (if k \<in> set (map fst th)
      then (case map_of (rev (kv # kvs)) k of Some v \<Rightarrow> Some v | None \<Rightarrow> map_of th k)
      else None)"
    unfolding kv by (auto simp: map_add_def split: option.splits)
  finally show ?case .
qed

lemma handle_update_keys:
  "map fst (alert_thresholds (snd (handle_update_alert_thresholds clk a msg)))
     = map fst (alert_thresholds a)"
  by (simp add: handle_update_alert_thresholds_def Let_def update_thresholds_keys split: sum.splits)

lemma handle_update_success:
  "fst (handle_update_alert_thresholds clk a msg) = Inr resp \<Longrightarrow>
   py_get (payload resp) ''success'' PNone = Inr (PBool True)"
  by (auto simp: handle_update_alert_thresholds_def Let_def CrossLanguageMessage_init_def
      py_get_def split: sum.splits)

lemma payload_ok_items:
  "thresholds_payload_ok p \<Longrightarrow>
   bind_e (py_get p ''thresholds'' (PDict [])) py_items = Inr (requested_thresholds p)"
  by (cases p) (auto simp: bind_e_def py_get_def py_items_def split: option.splits pyval.splits)

lemma handle_update_ok:
  assumes "thresholds_payload_ok (payload msg)"
  shows "\<exists>resp. fst (handle_update_alert_thresholds clk a msg) = Inr resp"
    and "alert_thresholds (snd (handle_update_alert_thresholds clk a msg))
          = update_thresholds (requested_thresholds (payload msg)) (alert_thresholds a)"
  using payload_ok_items [OF assms]
  by (simp_all add: handle_update_alert_thresholds_def Let_def)

lemma check_weather_alerts_thresholds:
  "alert_thresholds (fst (snd (check_weather_alerts rt clk a r))) = alert_thresholds a"
  by (simp add: check_weather_alerts_def Let_def split: sum.splits)

lemma check_noaa_alerts_thresholds:
  "alert_thresholds (fst (check_noaa_alerts avail a f)) = alert_thresholds a"
  by (simp add: check_noaa_alerts_def Let_def split: sum.splits)

lemma start_thresholds:
  "alert_thresholds (fst (snd (start_weather_monitoring a h))) = alert_thresholds a"
  by (simp add: start_weather_monitoring_def)

lemma stop_thresholds:
  "alert_thresholds (fst (snd (stop_weather_monitoring a))) = alert_thresholds a"
  by (simp add: stop_weather_monitoring_def Let_def split: option.splits)

lemma acquire_reading_thresholds:
  "acquire_reading rt clk d a f = (r, prov, a1) \<Longrightarrow> alert_thresholds a1 = alert_thresholds a"
  by (auto simp: acquire_reading_def Let_def split: prod.splits if_splits sum.splits option.splits)

lemma monitoring_cycle_thresholds:
  "alert_thresholds (fst (snd (monitoring_cycle rt avail clk d a fr fa))) = alert_thresholds a"
proof -
  obtain r prov a1 where acq: "acquire_reading rt clk d a fr = (r, prov, a1)"
    by (cases "acquire_reading rt clk d a fr") auto
  let ?a2 = "a1\<lparr>weather_data := append_reading (weather_data a1) r\<rparr>"
  obtain res a3 sent where chk: "check_weather_alerts rt clk ?a2 r = (res, a3, sent)"
    by (cases "check_weather_alerts rt clk ?a2 r") auto
  have a3: "alert_thresholds a3 = alert_thresholds a"
    using check_weather_alerts_thresholds [of rt clk ?a2 r] acquire_reading_thresholds [OF acq]
    by (simp add: chk)
  obtain a4 new where noaa: "check_noaa_alerts avail a3 fa = (a4, new)"
    by (cases "check_noaa_alerts avail a3 fa") auto
  have a4: "alert_thresholds a4 = alert_thresholds a"
    using check_noaa_alerts_thresholds [of avail a3 fa] a3 by (simp add: noaa)
  show ?thesis
    by (cases res) (simp_all add: monitoring_cycle_def acq chk noaa a3 a4 Let_def)
qed

lemma apply_op_keys:
  "map fst (alert_thresholds (apply_op rt avail clk a op)) = map fst (alert_thresholds a)"
  by (cases op)
     (simp_all add: handle_update_keys start_thresholds stop_thresholds
        check_weather_alerts_thresholds check_noaa_alerts_thresholds monitoring_cycle_thresholds)

lemma run_ops_keys:
  "map fst (alert_thresholds (run_ops rt avail a ops)) = map fst (alert_thresholds a)"
proof (induction ops arbitrary: a)
  case Nil
  show ?case by simp
next
  case (Cons cop ops)
  obtain clk op where cop: "cop = (clk, op)" by (cases cop)
  show ?case unfolding cop by (simp add: Cons.IH apply_op_keys)
qed

text \<open>
  C10. The threshold handler never changes the keys of \<open>alert_thresholds\<close>, whatever
  the payload; every response it sends reports success; on a payload that is a
  dictionary whose \<open>thresholds\<close> entry is absent or a dictionary it sends one, and
  afterwards a key holds the last value requested for it when it existed before,
  its old value when none was requested, and unknown keys are not added. No
  modelled operation changes the keys, so after any run from the constructor they
  are the eight keys the constructor sets.
\<close>

theorem C10_threshold_keys_invariant:
  "map fst (alert_thresholds (snd (handle_update_alert_thresholds clk a msg)))
     = map fst (alert_thresholds a)
   \<and> (\<forall>resp. fst (handle_update_alert_thresholds clk a msg) = Inr resp
         \<longrightarrow> py_get (payload resp) ''success'' PNone = Inr (PBool True))
   \<and> (thresholds_payload_ok (payload msg) \<longrightarrow>
        (\<exists>resp. fst (handle_update_alert_thresholds clk a msg) = Inr resp)
        \<and> (\<forall>k. map_of (alert_thresholds (snd (handle_update_alert_thresholds clk a msg))) k =
               (if k \<in> set (map fst (alert_thresholds a))
                then (case map_of (rev (requested_thresholds (payload msg))) k of
                        Some v \<Rightarrow> Some v | None \<Rightarrow> map_of (alert_thresholds a) k)
                else None)))
   \<and> map fst (alert_thresholds (run_ops rt avail a ops)) = map fst (alert_thresholds a)
   \<and> set (map fst (alert_thresholds (run_ops rt avail (agent_init aid loc rw) ops)))
       = {''temperature_high'', ''temperature_low'', ''precipitation_heavy'',
          ''precipitation_extreme'', ''wind_high'', ''wind_extreme'', ''visibility_low'',
          ''uv_extreme''}"
proof -
  have init: "set (map fst (alert_thresholds (agent_init aid loc rw)))
       = {''temperature_high'', ''temperature_low'', ''precipitation_heavy'',
          ''precipitation_extreme'', ''wind_high'', ''wind_extreme'', ''visibility_low'',
          ''uv_extreme''}"
    by (simp add: agent_init_def initial_thresholds_def)
  have ok: "thresholds_payload_ok (payload msg) \<longrightarrow>
        (\<exists>resp. fst (handle_update_alert_thresholds clk a msg) = Inr resp)
        \<and> (\<forall>k. map_of (alert_thresholds (snd (handle_update_alert_thresholds clk a msg))) k =
               (if k \<in> set (map fst (alert_thresholds a))
                then (case map_of (rev (requested_thresholds (payload msg))) k of
                        Some v \<Rightarrow> Some v | None \<Rightarrow> map_of (alert_thresholds a) k)
                else None))"
    using handle_update_ok [of msg clk a] update_thresholds_map_of by simp
  show ?thesis
    using handle_update_keys [of clk a msg] handle_update_success [of clk a msg] ok
      run_ops_keys [of rt avail a ops] run_ops_keys [of rt avail "agent_init aid loc rw" ops] init
    by simp
qed

theorem C10_threshold_keys_invariant_witness:
  "thresholds_payload_ok (payload (example_message example_update_payload))
   \<and> (\<exists>resp. fst (handle_update_alert_thresholds example_clock example_agent
                    (example_message example_update_payload)) = Inr resp
         \<and> py_get (payload resp) ''success'' PNone = Inr (PBool True))
   \<and> map_of (alert_thresholds (snd (handle_update_alert_thresholds example_clock example_agent
                    (example_message example_update_payload)))) ''wind_high'' = Some (PFloat 35)
   \<and> map_of (alert_thresholds (snd (handle_update_alert_thresholds example_clock example_agent
                    (example_message example_update_payload)))) ''bogus'' = None
   \<and> map_of (alert_thresholds (snd (handle_update_alert_thresholds example_clock example_agent
                    (example_message example_update_payload)))) ''wind_extreme'' = Some (PFloat 50)"
proof -
  let ?m = "example_message example_update_payload"
  have ok: "thresholds_payload_ok (payload ?m)"
    by (simp add: example_message_def example_update_payload_def)
  have req: "requested_thresholds (payload ?m) = [(''wind_high'', PFloat 35), (''bogus'', PInt 1)]"
    by (simp add: example_message_def example_update_payload_def)
  have th: "alert_thresholds example_agent = initial_thresholds"
    by (simp add: example_agent_def agent_init_def)
  from C10_threshold_keys_invariant [of example_clock example_agent ?m example_runtime True "[]"
      "''weather-1''" "''Boise, ID''" False] ok
  have succ: "\<forall>resp. fst (handle_update_alert_thresholds example_clock example_agent ?m) = Inr resp
         \<longrightarrow> py_get (payload resp) ''success'' PNone = Inr (PBool True)"
    and ex: "\<exists>resp. fst (handle_update_alert_thresholds example_clock example_agent ?m) = Inr resp"
    and mp: "\<And>k. map_of (alert_thresholds (snd (handle_update_alert_thresholds example_clock
                 example_agent ?m))) k =
               (if k \<in> set (map fst (alert_thresholds example_agent))
                then (case map_of (rev (requested_thresholds (payload ?m))) k of
                        Some v \<Rightarrow> Some v | None \<Rightarrow> map_of (alert_thresholds example_agent) k)
                else None)"
    by blast+
  have a: "map_of (alert_thresholds (snd (handle_update_alert_thresholds example_clock
                 example_agent ?m))) ''wind_high'' = Some (PFloat 35)"
    unfolding mp req th by (simp add: initial_thresholds_def)
  have b: "map_of (alert_thresholds (snd (handle_update_alert_thresholds example_clock
                 example_agent ?m))) ''bogus'' = None"
    unfolding mp req th by (simp add: initial_thresholds_def)
  have c: "map_of (alert_thresholds (snd (handle_update_alert_thresholds example_clock
                 example_agent ?m))) ''wind_extreme'' = Some (PFloat 50)"
    unfolding mp req th by (simp add: initial_thresholds_def)
  show ?thesis using ok succ ex a b c by blast
qed

section \<open>Start and stop\<close>



section \<open>Advisory polls\<close>


lemma check_noaa_alerts_enabled:
  "noaa_enabled avail a \<Longrightarrow> noaa_enabled avail (fst (check_noaa_alerts avail a f))"
  by (auto simp: check_noaa_alerts_def noaa_enabled_def Let_def split: sum.splits)

text \<open>
  C1. With the mirror enabled, a poll whose fetch raises changes nothing and
  broadcasts nothing; a poll that fetches a list stores it, and the next poll
  broadcasts exactly the fetched advisories whose identifier is not in that stored
  list. An identifier returned by two consecutive polls is therefore not broadcast
  by the second.
\<close>

theorem C1_new_against_previous_poll:
  assumes "noaa_enabled avail a"
  shows "check_noaa_alerts avail a (Inl e) = (a, [])
     \<and> (\<exists>a1 sent1 a2.
          check_noaa_alerts avail a (Inr first_poll) = (a1, sent1)
          \<and> noaa_alerts a1 = first_poll
          \<and> check_noaa_alerts avail a1 (Inr second_poll)
              = (a2, filter (\<lambda>al. noaa_alert_id al \<notin> set (map noaa_alert_id first_poll))
                       second_poll)
          \<and> noaa_alerts a2 = second_poll)"
  using assms by (auto simp: check_noaa_alerts_def noaa_enabled_def Let_def)

lemma example_live_enabled: "noaa_enabled True example_live_agent"
  by (simp add: noaa_enabled_def example_live_agent_def agent_init_def)

theorem C1_new_against_previous_poll_witness:
  "noaa_enabled True example_live_agent
   \<and> (\<exists>a1 sent1 a2.
          check_noaa_alerts True example_live_agent (Inr [example_noaa_alert ''A'']) = (a1, sent1)
          \<and> check_noaa_alerts True a1 (Inr [example_noaa_alert ''A'', example_noaa_alert ''B''])
              = (a2, [example_noaa_alert ''B'']))"
proof -
  from C1_new_against_previous_poll [OF example_live_enabled,
      where first_poll = "[example_noaa_alert ''A'']"
        and second_poll = "[example_noaa_alert ''A'', example_noaa_alert ''B'']"]
  obtain a1 sent1 a2 where
    "check_noaa_alerts True example_live_agent (Inr [example_noaa_alert ''A'']) = (a1, sent1)"
    "check_noaa_alerts True a1 (Inr [example_noaa_alert ''A'', example_noaa_alert ''B''])
       = (a2, filter (\<lambda>al. noaa_alert_id al \<notin> set (map noaa_alert_id [example_noaa_alert ''A'']))
                [example_noaa_alert ''A'', example_noaa_alert ''B''])"
    by blast
  then show ?thesis
    using example_live_enabled by (auto simp: example_noaa_alert_def)
qed

text \<open>
  The agent keeps no set of identifiers seen: an identifier that is returned, then
  absent, then returned again is broadcast twice.
\<close>

theorem C1_rebroadcast_counterexample:
  "broadcast_count ''A''
     (fst (poll_sequence True example_live_agent
             [Inr [example_noaa_alert ''A''], Inr [], Inr [example_noaa_alert ''A'']])) = 2"
  by (simp add: broadcast_count_def check_noaa_alerts_def noaa_enabled_def Let_def
      example_live_agent_def agent_init_def example_noaa_alert_def)


section \<open>Bounds of simulated readings\<close>

lemma py_round_ge:
  assumes "of_int k / 10 ^ n \<le> x"
  shows "of_int k / 10 ^ n \<le> py_round x n"
proof -
  have p: "(0::real) < 10 ^ n" by simp
  from assms have "of_int k \<le> x * 10 ^ n"
    using p by (simp add: pos_divide_le_eq)
  then have "k \<le> \<lfloor>x * 10 ^ n\<rfloor>" by (simp add: le_floor_iff)
  then have "(of_int k :: real) \<le> of_int (if x * 10 ^ n - of_int \<lfloor>x * 10 ^ n\<rfloor> < 1/2 then \<lfloor>x * 10 ^ n\<rfloor>
               else if 1/2 < x * 10 ^ n - of_int \<lfloor>x * 10 ^ n\<rfloor> then \<lfloor>x * 10 ^ n\<rfloor> + 1
               else if even \<lfloor>x * 10 ^ n\<rfloor> then \<lfloor>x * 10 ^ n\<rfloor> else \<lfloor>x * 10 ^ n\<rfloor> + 1)"
    by (simp only: of_int_le_iff split: if_splits) auto
  then show ?thesis
    unfolding py_round_def Let_def using p by (simp only: divide_le_cancel) auto
qed

lemma py_round_le:
  assumes "x \<le> of_int k / 10 ^ n"
  shows "py_round x n \<le> of_int k / 10 ^ n"
proof -
  have p: "(0::real) < 10 ^ n" by simp
  let ?y = "x * 10 ^ n"
  from assms have yk: "?y \<le> of_int k"
    using p by (simp add: pos_le_divide_eq)
  then have fk: "\<lfloor>?y\<rfloor> \<le> k" by (simp add: floor_le_iff)
  have "(if ?y - of_int \<lfloor>?y\<rfloor> < 1/2 then \<lfloor>?y\<rfloor>
               else if 1/2 < ?y - of_int \<lfloor>?y\<rfloor> then \<lfloor>?y\<rfloor> + 1
               else if even \<lfloor>?y\<rfloor> then \<lfloor>?y\<rfloor> else \<lfloor>?y\<rfloor> + 1) \<le> k"
  proof (cases "\<lfloor>?y\<rfloor> = k")
    case True
    then have "?y - of_int \<lfloor>?y\<rfloor> \<le> 0" using yk by simp
    then show ?thesis using True by simp
  next
    case False
    with fk have "\<lfloor>?y\<rfloor> + 1 \<le> k" by simp
    then show ?thesis using fk by simp
  qed
  then have "(of_int (if ?y - of_int \<lfloor>?y\<rfloor> < 1/2 then \<lfloor>?y\<rfloor>
               else if 1/2 < ?y - of_int \<lfloor>?y\<rfloor> then \<lfloor>?y\<rfloor> + 1
               else if even \<lfloor>?y\<rfloor> then \<lfloor>?y\<rfloor> else \<lfloor>?y\<rfloor> + 1) :: real) \<le> of_int k"
    by (simp only: of_int_le_iff)
  then show ?thesis
    unfolding py_round_def Let_def using p by (simp only: divide_le_cancel) auto
qed

lemma py_round_lower: "(0::real) \<le> x \<Longrightarrow> 0 \<le> py_round x n"
  using py_round_ge [of 0 n x] by simp

lemma py_round_between_1:
  "of_int lo \<le> x \<Longrightarrow> x \<le> of_int hi \<Longrightarrow> of_int lo \<le> py_round x 1 \<and> py_round x 1 \<le> of_int hi"
  using py_round_ge [of "lo * 10" 1 x] py_round_le [of x "hi * 10" 1] by simp

lemma sim_hour_range: "0 \<le> sim_hour_of_day clk h \<and> sim_hour_of_day clk h \<le> 23"
proof -
  have "0 \<le> (local_hour clk + h) mod 24" by simp
  moreover have "(local_hour clk + h) mod 24 < 24" by simp
  ultimately show ?thesis unfolding sim_hour_of_day_def by linarith
qed

lemma sim_humidity_range:
  "20 \<le> sim_humidity clk d sim h \<and> sim_humidity clk d sim h \<le> 95"
  by (simp add: sim_humidity_def Let_def)

lemma sim_precipitation_range:
  "draws_ok d \<Longrightarrow> 0 \<le> sim_precipitation d sim \<and> sim_precipitation d sim \<le> 2"
  by (auto simp: sim_precipitation_def draws_ok_def)

lemma sim_wind_speed_range: "0 \<le> sim_wind_speed d sim"
  by (simp add: sim_wind_speed_def Let_def)

lemma sim_visibility_range:
  "1/2 \<le> sim_visibility clk d sim h \<and> sim_visibility clk d sim h \<le> 10"
  by (auto simp: sim_visibility_def Let_def min_def max_def)

lemma sim_uv_index_range:
  "0 \<le> sim_uv_index clk d sim h \<and> sim_uv_index clk d sim h \<le> 11"
  by (auto simp: sim_uv_index_def Let_def)

lemma sim_temperature_range:
  assumes "5/4 \<le> base_temp sim + temp_noise d + temperature_trend sim"
    and "base_temp sim + temp_noise d + temperature_trend sim \<le> 285/2"
  shows "0 \<le> sim_temperature clk d sim h \<and> sim_temperature clk d sim h \<le> 150"
proof -
  let ?hr = "sim_hour_of_day clk h"
  have "0 \<le> ?hr" "?hr \<le> 23" using sim_hour_range by auto
  then have "(0::real) \<le> of_int ?hr" "(of_int ?hr :: real) \<le> 23"
    by (simp_all add: of_int_le_iff [of _ 23, simplified])
  then have a: "\<bar>(of_int ?hr :: real) - 14\<bar> \<le> 14" "0 \<le> \<bar>(of_int ?hr :: real) - 14\<bar>"
    by (auto simp: abs_le_iff)
  have "- (5/4) \<le> 15 * (1/2 - \<bar>(of_int ?hr :: real) - 14\<bar> / 24)"
    and "15 * (1/2 - \<bar>(of_int ?hr :: real) - 14\<bar> / 24) \<le> 15/2"
    using a by (simp_all add: field_simps)
  with assms show ?thesis
    unfolding sim_temperature_def Let_def by linarith
qed

lemma sim_pressure_range:
  assumes "- (453/4) \<le> pressure_trend sim + pressure_noise d"
    and "pressure_trend sim + pressure_noise d \<le> 347/4"
  shows "900 \<le> sim_pressure d sim \<and> sim_pressure d sim \<le> 1100"
  using assms unfolding sim_pressure_def by (simp add: field_simps)

lemma update_trends_ok:
  "draws_ok d \<Longrightarrow> simulator_ok sim \<Longrightarrow> simulator_ok (update_trends d sim)"
  by (simp add: update_trends_def simulator_ok_def draws_ok_def Let_def)

lemma initial_simulator_ok: "simulator_ok (WeatherSimulator_init 70 loc)"
  by (simp add: simulator_ok_def WeatherSimulator_init_def)

text \<open>
  C6. For any simulator state the code reaches, any clock, any hour offset and
  any outcome of the random draws, the generated reading has temperature in
  [0, 150], humidity in [0, 100], precipitation and wind speed at least 0,
  pressure in [900, 1100], visibility in [0, 15] and UV index in [0, 11]; the
  simulator it leaves is again such a state, so the bounds hold for every reading
  of any sequence of calls.
\<close>

theorem C6_generated_reading_bounds:
  assumes "draws_ok d" and "simulator_ok sim"
  shows "0 \<le> temperature_f (fst (generate_hourly_reading rt clk d sim hour_offset))
     \<and> temperature_f (fst (generate_hourly_reading rt clk d sim hour_offset)) \<le> 150
     \<and> 0 \<le> humidity_percent (fst (generate_hourly_reading rt clk d sim hour_offset))
     \<and> humidity_percent (fst (generate_hourly_reading rt clk d sim hour_offset)) \<le> 100
     \<and> 0 \<le> precipitation_inches (fst (generate_hourly_reading rt clk d sim hour_offset))
     \<and> 0 \<le> wind_speed_mph (fst (generate_hourly_reading rt clk d sim hour_offset))
     \<and> 900 \<le> pressure_mb (fst (generate_hourly_reading rt clk d sim hour_offset))
     \<and> pressure_mb (fst (generate_hourly_reading rt clk d sim hour_offset)) \<le> 1100
     \<and> 0 \<le> visibility_miles (fst (generate_hourly_reading rt clk d sim hour_offset))
     \<and> visibility_miles (fst (generate_hourly_reading rt clk d sim hour_offset)) \<le> 15
     \<and> 0 \<le> uv_index (fst (generate_hourly_reading rt clk d sim hour_offset))
     \<and> uv_index (fst (generate_hourly_reading rt clk d sim hour_offset)) \<le> 11
     \<and> simulator_ok (snd (generate_hourly_reading rt clk d sim hour_offset))"
proof -
  have s1: "5/4 \<le> base_temp sim + temp_noise d + temperature_trend sim"
    and s2: "base_temp sim + temp_noise d + temperature_trend sim \<le> 285/2"
    and p1: "- (453/4) \<le> pressure_trend sim + pressure_noise d"
    and p2: "pressure_trend sim + pressure_noise d \<le> 347/4"
    using assms by (simp_all add: draws_ok_def simulator_ok_def)
  have tmp: "0 \<le> py_round (sim_temperature clk d sim hour_offset) 1
      \<and> py_round (sim_temperature clk d sim hour_offset) 1 \<le> 150"
    using py_round_between_1 [of 0 "sim_temperature clk d sim hour_offset" 150]
      sim_temperature_range [OF s1 s2, of clk hour_offset] by simp
  have hum: "0 \<le> py_round (sim_humidity clk d sim hour_offset) 1
      \<and> py_round (sim_humidity clk d sim hour_offset) 1 \<le> 100"
    using py_round_between_1 [of 0 "sim_humidity clk d sim hour_offset" 100]
      sim_humidity_range [of clk d sim hour_offset] by simp
  have pre: "0 \<le> py_round (sim_precipitation d sim) 2"
    using py_round_lower sim_precipitation_range [OF assms(1)] by simp
  have wnd: "0 \<le> py_round (sim_wind_speed d sim) 1"
    using py_round_lower sim_wind_speed_range by simp
  have prs: "900 \<le> py_round (sim_pressure d sim) 1 \<and> py_round (sim_pressure d sim) 1 \<le> 1100"
    using py_round_between_1 [of 900 "sim_pressure d sim" 1100]
      sim_pressure_range [OF p1 p2] by simp
  have vis: "0 \<le> py_round (sim_visibility clk d sim hour_offset) 1
      \<and> py_round (sim_visibility clk d sim hour_offset) 1 \<le> 15"
    using py_round_between_1 [of 0 "sim_visibility clk d sim hour_offset" 15]
      sim_visibility_range [of clk d sim hour_offset] by simp
  show ?thesis
    using tmp hum pre wnd prs vis sim_uv_index_range [of clk d sim hour_offset]
      update_trends_ok [OF assms]
    by (simp add: generate_hourly_reading_def)
qed

lemma example_draws_ok: "draws_ok example_draws"
  by (simp add: draws_ok_def example_draws_def)

lemma example_simulator_ok: "simulator_ok (simulator example_agent)"
  by (simp add: example_agent_def agent_init_def initial_simulator_ok)

theorem C6_generated_reading_bounds_witness:
  "draws_ok example_draws
   \<and> simulator_ok (simulator example_agent)
   \<and> 0 \<le> temperature_f (fst (generate_hourly_reading example_runtime example_clock
            example_draws (simulator example_agent) 0))
   \<and> temperature_f (fst (generate_hourly_reading example_runtime example_clock
            example_draws (simulator example_agent) 0)) \<le> 150
   \<and> 900 \<le> pressure_mb (fst (generate_hourly_reading example_runtime example_clock
            example_draws (simulator example_agent) 0))
   \<and> pressure_mb (fst (generate_hourly_reading example_runtime example_clock
            example_draws (simulator example_agent) 0)) \<le> 1100
   \<and> humidity_percent (fst (generate_hourly_reading example_runtime example_clock
            example_draws (simulator example_agent) 0)) \<le> 100
   \<and> simulator_ok (snd (generate_hourly_reading example_runtime example_clock
            example_draws (simulator example_agent) 0))"
  using C6_generated_reading_bounds [OF example_draws_ok example_simulator_ok,
      of example_runtime example_clock 0] example_draws_ok example_simulator_ok
  by blast

section \<open>Envelope and reading round trips\<close>

text \<open>
  C3. Decoding an encoded reading gives the reading back, field for field.
  Decoding an encoded envelope gives back its id, type, source, destination,
  payload and metadata; the timestamp of the result is the time of decoding.
\<close>

theorem C3_roundtrip:
  "WeatherReading_from_dict (WeatherReading_to_dict r) = Inr r
   \<and> CrossLanguageMessage_from_dict clk (CrossLanguageMessage_to_dict m)
       = Inr (m\<lparr>msg_timestamp := utc_now_iso clk\<rparr>)"
  using WeatherReading_roundtrip [of r] CrossLanguageMessage_roundtrip [of clk m] by simp

text \<open>
  An envelope stamped at 02:00 and decoded at 12:00 comes back stamped 12:00.
\<close>

theorem C3_envelope_timestamp_counterexample:
  "msg_timestamp (example_message (PDict [])) = ''2024-07-01T02:00:00+00:00''
   \<and> CrossLanguageMessage_from_dict example_clock
        (CrossLanguageMessage_to_dict (example_message (PDict [])))
       = Inr ((example_message (PDict []))\<lparr>msg_timestamp := ''2024-07-01T12:00:00+00:00''\<rparr>)
   \<and> CrossLanguageMessage_from_dict example_clock
        (CrossLanguageMessage_to_dict (example_message (PDict [])))
       \<noteq> Inr (example_message (PDict []))"
  by (simp add: CrossLanguageMessage_from_dict_def CrossLanguageMessage_to_dict_def
      CrossLanguageMessage_init_def getitem_def bind_e_def example_message_def example_clock_def)

section \<open>Data-quality flags\<close>

lemma example_live_cycle_eval:
  "example_live_cycle =
     (Inr (),
      example_live_agent\<lparr>weather_data := [convert_noaa_reading example_noaa_reading]\<rparr>,
      [broadcast_weather_update example_clock
         (example_live_agent\<lparr>weather_data := [convert_noaa_reading example_noaa_reading]\<rparr>)
         (convert_noaa_reading example_noaa_reading)],
      Live)"
  by (simp add: example_live_cycle_def monitoring_cycle_def acquire_reading_def Let_def split_def
      example_live_agent_def agent_init_def convert_noaa_reading_def example_noaa_reading_def
      or_float_def or_str_def check_weather_alerts_def alerts_generated_def
      temperature_alerts_def precipitation_alerts_def wind_alerts_def visibility_alerts_def
      uv_alerts_def bind_e_def getitem_def py_ge_def py_le_def initial_thresholds_def
      check_noaa_alerts_def noaa_enabled_def append_reading_def)

text \<open>
  C4. The claim wants the weather-update broadcast and the response to
  \<open>get_current_weather\<close> to carry a flag that is \<open>simulated\<close> exactly when the
  simulator produced the reading. In a cycle of the live agent whose reading comes
  from the provider, the one envelope sent is the weather update, and it carries
  \<open>data_quality\<close> with the value \<open>simulated\<close>; the response to
  \<open>get_current_weather\<close> that then returns this reading has the three payload keys
  location, current_weather and monitoring_active and no flag. The response to
  \<open>get_noaa_alerts\<close> of the same agent does report that it is not in fallback
  mode.
\<close>

theorem C4_live_reading_broadcast_as_simulated:
  "fst example_live_cycle = Inr ()
   \<and> snd (snd (snd example_live_cycle)) = Live
   \<and> weather_data (fst (snd example_live_cycle)) = [convert_noaa_reading example_noaa_reading]
   \<and> map msg_type (fst (snd (snd example_live_cycle))) = [PStr ''weather_update'']
   \<and> map (\<lambda>m. py_get (payload m) ''data_quality'' PNone) (fst (snd (snd example_live_cycle)))
       = [Inr (PStr ''simulated'')]
   \<and> payload_keys (payload (handle_get_current_weather example_clock
         (fst (snd example_live_cycle)) (example_message (PDict []))))
       = [''location'', ''current_weather'', ''monitoring_active'']
   \<and> py_get (payload (handle_get_noaa_alerts True example_clock
         (fst (snd example_live_cycle)) (example_message (PDict [])))) ''fallback_mode'' PNone
       = Inr (PBool False)"
  unfolding example_live_cycle_eval
  by (simp add: broadcast_weather_update_def handle_get_current_weather_def
      handle_get_noaa_alerts_def CrossLanguageMessage_init_def py_get_def Let_def
      example_live_agent_def agent_init_def)


end
